theory Spec2Isabelle
  imports Complex_Main "HOL-Library.Log_Nat"
begin

section \<open>JavaScript values\<close>

text \<open>
  A JavaScript number is an IEEE 754 double. It is modelled as the real number it stands
  for, and where the rounding of the arithmetic can reach a verdict, in the deterministic
  scorer, every operation is followed by the rounding to the nearest double (section
  on doubles below). Counts and timestamps are integers. A string is a list of
  characters, each standing for the code unit with the same number (0 to 255); messages
  with code units above 255 are outside this model. An optional field of a TypeScript
  interface is an \<open>option\<close>.
\<close>

definition charCode :: "char \<Rightarrow> nat" where
  "charCode c = of_char c"

definition isUpperAscii :: "char \<Rightarrow> bool" where
  "isUpperAscii c = (65 \<le> charCode c \<and> charCode c \<le> 90)"

definition isLowerAscii :: "char \<Rightarrow> bool" where
  "isLowerAscii c = (97 \<le> charCode c \<and> charCode c \<le> 122)"

definition isLetter :: "char \<Rightarrow> bool" where
  "isLetter c = (isLowerAscii c \<or> isUpperAscii c)"

definition isDigit :: "char \<Rightarrow> bool" where
  "isDigit c = (48 \<le> charCode c \<and> charCode c \<le> 57)"

text \<open>The classes \<open>\w\<close>, \<open>\s\<close> and \<open>.\<close> of a JavaScript regular expression.\<close>

definition isWord :: "char \<Rightarrow> bool" where
  "isWord c = (isUpperAscii c \<or> isLowerAscii c \<or> isDigit c \<or> c = CHR ''_'')"

definition isSpace :: "char \<Rightarrow> bool" where
  "isSpace c = (charCode c \<in> {9, 10, 11, 12, 13, 32, 160})"

definition isDot :: "char \<Rightarrow> bool" where
  "isDot c = (charCode c \<noteq> 10 \<and> charCode c \<noteq> 13)"

definition lowerChar :: "char \<Rightarrow> char" where
  "lowerChar c =
     (if isUpperAscii c \<or> (192 \<le> charCode c \<and> charCode c \<le> 222 \<and> charCode c \<noteq> 215)
      then char_of (charCode c + 32) else c)"

definition toLowerCase :: "string \<Rightarrow> string" where
  "toLowerCase s = map lowerChar s"

fun startsWith :: "string \<Rightarrow> string \<Rightarrow> bool" where
  "startsWith s [] = True"
| "startsWith [] (c # w) = False"
| "startsWith (d # s) (c # w) = (d = c \<and> startsWith s w)"

text \<open>\<open>String.prototype.includes\<close>: the word occurs somewhere in the string.\<close>

fun includes_str :: "string \<Rightarrow> string \<Rightarrow> bool" where
  "includes_str [] w = (w = [])"
| "includes_str (d # s) w = (startsWith (d # s) w \<or> includes_str s w)"

text \<open>\<open>Math.round\<close> rounds to the nearest integer, a half towards plus infinity.\<close>

definition Math_round :: "real \<Rightarrow> real" where
  "Math_round x = of_int \<lfloor>x + 1 / 2\<rfloor>"

text \<open>The decimal digits of a count, as a template literal prints it.\<close>

fun decimal :: "nat \<Rightarrow> string" where
  "decimal n = (if n < 10 then [char_of (48 + n)] else decimal (n div 10) @ [char_of (48 + n mod 10)])"

definition showInt :: "int \<Rightarrow> string" where
  "showInt i = (if i < 0 then CHR ''-'' # decimal (nat (- i)) else decimal (nat i))"

fun join :: "string \<Rightarrow> string list \<Rightarrow> string" where
  "join sep [] = []"
| "join sep [x] = x"
| "join sep (x # y # ys) = x @ sep @ join sep (y # ys)"

section \<open>Doubles\<close>

text \<open>
  A double has a significand of 53 bits. For a positive real \<open>x\<close>, \<open>exponent x\<close> is the
  integer \<open>e\<close> with \<open>2^e \<le> x < 2^(e+1)\<close>; the doubles of that binade are the multiples of
  \<open>2^(e-52)\<close>, and \<open>nearest x\<close> is the multiple nearest to \<open>x\<close>, the even one of two that
  are equally near. \<open>toDouble\<close> extends this to 0 and to the negative numbers. Numbers
  too large for a double (from \<open>2^1024\<close>) and the subnormal range (below \<open>2^-1022\<close>) are
  not modelled: no operation of the scorer reaches them as long as its two counts are
  lengths of arrays.
\<close>

definition exponent :: "real \<Rightarrow> int" where
  "exponent x = (if 1 \<le> x then bitlen \<lfloor>x\<rfloor> - 1 else - bitlen (\<lceil>1 / x\<rceil> - 1))"

definition roundEven :: "real \<Rightarrow> int" where
  "roundEven r =
     (let f = \<lfloor>r\<rfloor>; d = r - of_int f
      in if d < 1 / 2 then f else if 1 / 2 < d then f + 1 else if even f then f else f + 1)"

definition nearest :: "real \<Rightarrow> real" where
  "nearest x = (let u = 2 powi (exponent x - 52) in of_int (roundEven (x / u)) * u)"

definition toDouble :: "real \<Rightarrow> real" where
  "toDouble x = (if x = 0 then 0 else if 0 < x then nearest x else - nearest (- x))"

text \<open>The four operations on doubles: the exact result, rounded. A decimal literal of the
  source such as \<open>0.15\<close> is the double \<open>toDouble 0.15\<close>.\<close>

definition add_d :: "real \<Rightarrow> real \<Rightarrow> real" where
  "add_d a b = toDouble (a + b)"

definition sub_d :: "real \<Rightarrow> real \<Rightarrow> real" where
  "sub_d a b = toDouble (a - b)"

definition mul_d :: "real \<Rightarrow> real \<Rightarrow> real" where
  "mul_d a b = toDouble (a * b)"

definition div_d :: "real \<Rightarrow> real \<Rightarrow> real" where
  "div_d a b = toDouble (a / b)"

section \<open>Regular expressions\<close>

text \<open>
  The regular expressions of the program use literals, character classes, word boundaries,
  sequence, alternation and greedy repetition. A cursor is a position in the input: the
  character before it, if any, and the rest of the input. \<open>ends\<close> lists the cursors at
  which a match starting at the given cursor can end, in the order in which a backtracking
  matcher tries them: the first one is the match JavaScript reports.
\<close>

type_synonym cursor = "char option \<times> string"

datatype regex =
    Lit string
  | Cls "char \<Rightarrow> bool"
  | WordB
  | Seq regex regex
  | Alt regex regex
  | Star regex

text \<open>With the \<open>i\<close> flag two characters match when their canonical forms are equal; an
  ASCII letter of a pattern never matches a character outside ASCII.\<close>

definition canonicalize :: "bool \<Rightarrow> char \<Rightarrow> char" where
  "canonicalize ic c = (if ic \<and> isLowerAscii c then char_of (charCode c - 32) else c)"

fun lit_ends :: "bool \<Rightarrow> string \<Rightarrow> cursor \<Rightarrow> cursor list" where
  "lit_ends ic [] cur = [cur]"
| "lit_ends ic (c # cs) (p, []) = []"
| "lit_ends ic (c # cs) (p, d # ds) =
     (if canonicalize ic c = canonicalize ic d then lit_ends ic cs (Some d, ds) else [])"

definition wordBefore :: "cursor \<Rightarrow> bool" where
  "wordBefore cur = (case fst cur of None \<Rightarrow> False | Some c \<Rightarrow> isWord c)"

definition wordAfter :: "cursor \<Rightarrow> bool" where
  "wordAfter cur = (case snd cur of [] \<Rightarrow> False | c # cs \<Rightarrow> isWord c)"

text \<open>Greedy repetition: one more round first, as long as the round consumed input, then
  stopping here. The input left bounds the number of rounds.\<close>

fun star_ends :: "(cursor \<Rightarrow> cursor list) \<Rightarrow> nat \<Rightarrow> cursor \<Rightarrow> cursor list" where
  "star_ends f 0 cur = [cur]"
| "star_ends f (Suc n) cur =
     concat (map (star_ends f n) (filter (\<lambda>e. length (snd e) < length (snd cur)) (f cur))) @ [cur]"

fun ends :: "bool \<Rightarrow> regex \<Rightarrow> cursor \<Rightarrow> cursor list" where
  "ends ic (Lit w) cur = lit_ends ic w cur"
| "ends ic (Cls P) cur =
     (case snd cur of [] \<Rightarrow> [] | d # ds \<Rightarrow> if P d then [(Some d, ds)] else [])"
| "ends ic WordB cur = (if wordBefore cur \<noteq> wordAfter cur then [cur] else [])"
| "ends ic (Seq a b) cur = concat (map (ends ic b) (ends ic a cur))"
| "ends ic (Alt a b) cur = ends ic a cur @ ends ic b cur"
| "ends ic (Star a) cur = star_ends (ends ic a) (length (snd cur)) cur"

text \<open>All cursors of a string with their indices, from left to right.\<close>

fun cursors :: "char option \<Rightarrow> string \<Rightarrow> nat \<Rightarrow> (nat \<times> cursor) list" where
  "cursors p [] i = [(i, (p, []))]"
| "cursors p (c # cs) i = (i, (p, c # cs)) # cursors (Some c) cs (Suc i)"

text \<open>The first match that starts at index \<open>li\<close> or later, as (start, end).\<close>

fun first_match :: "bool \<Rightarrow> regex \<Rightarrow> nat \<Rightarrow> (nat \<times> cursor) list \<Rightarrow> nat \<Rightarrow> (nat \<times> nat) option" where
  "first_match ic r n [] li = None"
| "first_match ic r n ((j, cur) # cs) li =
     (if j < li then first_match ic r n cs li
      else (case ends ic r cur of
              [] \<Rightarrow> first_match ic r n cs li
            | e # es \<Rightarrow> Some (j, n - length (snd e))))"

text \<open>All matches from left to right without overlap; after an empty match the search
  moves on by one.\<close>

fun all_matches :: "bool \<Rightarrow> regex \<Rightarrow> nat \<Rightarrow> (nat \<times> cursor) list \<Rightarrow> nat \<Rightarrow> (nat \<times> nat) list" where
  "all_matches ic r n [] li = []"
| "all_matches ic r n ((j, cur) # cs) li =
     (if j < li then all_matches ic r n cs li
      else (case ends ic r cur of
              [] \<Rightarrow> all_matches ic r n cs li
            | e # es \<Rightarrow> (let k = n - length (snd e)
                         in (j, k) # all_matches ic r n cs (if k = j then Suc j else k))))"

text \<open>Notation of the patterns: \<open>r?\<close>, \<open>r+\<close>, \<open>r{m,n}\<close>, sequences and alternatives.\<close>

definition Opt :: "regex \<Rightarrow> regex" where
  "Opt r = Alt r (Lit [])"

definition Plus :: "regex \<Rightarrow> regex" where
  "Plus r = Seq r (Star r)"

fun seqs :: "regex list \<Rightarrow> regex" where
  "seqs [] = Lit []"
| "seqs [r] = r"
| "seqs (r # rs) = Seq r (seqs rs)"

fun alts :: "regex list \<Rightarrow> regex" where
  "alts [] = Cls (\<lambda>c. False)"
| "alts [r] = r"
| "alts (r # rs) = Alt r (alts rs)"

definition strs :: "string list \<Rightarrow> regex" where
  "strs ws = alts (map Lit ws)"

fun rep :: "nat \<Rightarrow> nat \<Rightarrow> regex \<Rightarrow> regex" where
  "rep 0 0 r = Lit []"
| "rep 0 (Suc n) r = Opt (Seq r (rep 0 n r))"
| "rep (Suc m) n r = Seq r (rep m (n - 1) r)"

text \<open>
  A \<open>RegExp\<close> object with the \<open>g\<close> flag: its pattern, its \<open>i\<close> flag and its mutable
  \<open>lastIndex\<close>. \<open>test\<close> searches from \<open>lastIndex\<close> and moves it to the end of the match, or
  back to 0 when nothing matches. \<open>String.prototype.match\<close> with such an object starts at 0
  and leaves \<open>lastIndex\<close> at 0.
\<close>

record RegExp =
  source :: regex
  ignoreCase :: bool
  lastIndex :: nat

definition new_RegExp :: "regex \<Rightarrow> bool \<Rightarrow> RegExp" where
  "new_RegExp r ic = \<lparr>source = r, ignoreCase = ic, lastIndex = 0\<rparr>"

definition exec_from :: "RegExp \<Rightarrow> string \<Rightarrow> (nat \<times> nat) option" where
  "exec_from p s =
     first_match (ignoreCase p) (source p) (length s) (cursors None s 0) (lastIndex p)"

definition regexp_test :: "RegExp \<Rightarrow> string \<Rightarrow> bool \<times> RegExp" where
  "regexp_test p s =
     (case exec_from p s of
        None \<Rightarrow> (False, p\<lparr>lastIndex := 0\<rparr>)
      | Some (j, k) \<Rightarrow> (True, p\<lparr>lastIndex := k\<rparr>))"

definition string_match :: "string \<Rightarrow> RegExp \<Rightarrow> (nat \<times> nat) list \<times> RegExp" where
  "string_match s p =
     (all_matches (ignoreCase p) (source p) (length s) (cursors None s 0) 0,
      p\<lparr>lastIndex := 0\<rparr>)"

text \<open>\<open>patterns.some(pattern => pattern.test(text))\<close> stops at the first pattern that
  matches; the objects tested so far keep their new \<open>lastIndex\<close>.\<close>

fun some_test :: "RegExp list \<Rightarrow> string \<Rightarrow> bool \<times> RegExp list" where
  "some_test [] s = (False, [])"
| "some_test (p # ps) s =
     (case regexp_test p s of
        (True, p') \<Rightarrow> (True, p' # ps)
      | (False, p') \<Rightarrow> (case some_test ps s of (b, ps') \<Rightarrow> (b, p' # ps')))"

text \<open>The loop \<open>patterns.forEach(pattern => { matches = text.match(pattern); if (matches)
  count += matches.length })\<close>.\<close>

fun count_matches :: "RegExp list \<Rightarrow> string \<Rightarrow> int \<times> RegExp list" where
  "count_matches [] s = (0, [])"
| "count_matches (p # ps) s =
     (case string_match s p of
        (ms, p') \<Rightarrow> (case count_matches ps s of (n, ps') \<Rightarrow> (int (length ms) + n, p' # ps')))"

section \<open>Data model (src/types)\<close>

text \<open>The optional fields of \<open>SMSMessage\<close> carry the suffix \<open>_m\<close>; \<open>isSpam_m = None\<close>
  is the \<open>null\<close> of a message that is not classified yet.\<close>

record SMSMessage =
  id_m :: string
  sender :: string
  body :: string
  timestamp :: int
  isSpam_m :: "bool option"
  confidence_m :: "real option"
  reason_m :: "string option"
  classifiedAt_m :: "int option"

record ClassificationResult =
  isSpam :: bool
  confidence :: real
  reason :: string

definition SPAM_KEYWORDS :: "string list" where
  "SPAM_KEYWORDS =
    [''lottery'', ''winner'', ''congratulations'', ''claim'', ''prize'', ''urgent'',
     ''limited time'', ''act now'', ''click here'', ''free'', ''cash'', ''discount'',
     ''offer'', ''deal'', ''credit'', ''loan'', ''debt'', ''investment'', ''earn money'',
     ''work from home'', ''bitcoin'', ''crypto'', ''viagra'', ''pharmacy'', ''pills'',
     ''weight loss'', ''enlarge'', ''singles'', ''dating'', ''verify account'',
     ''suspended'', ''confirm'', ''reset password'', ''bank account'', ''social security'',
     ''irs'', ''refund'', ''tax'', ''gift card'']"

section \<open>The deterministic scorer (src/services/nlpClassifierService.ts)\<close>

text \<open>
  The rupee sign of two patterns is a code unit above 255: no character of a modelled
  message is equal to it.
\<close>

definition rupee :: regex where
  "rupee = Cls (\<lambda>c. False)"

definition digitOrComma :: "char \<Rightarrow> bool" where
  "digitOrComma c = (isDigit c \<or> c = CHR '','')"

definition spaceOrHyphen :: "char \<Rightarrow> bool" where
  "spaceOrHyphen c = (isSpace c \<or> c = CHR ''-'')"

definition hyphenOrBlank :: "char \<Rightarrow> bool" where
  "hyphenOrBlank c = (c = CHR ''-'' \<or> c = CHR '' '')"

text \<open>A pattern of the form \<open>\b(w1|w2|...)\b\<close>.\<close>

definition words :: "string list \<Rightarrow> regex" where
  "words ws = seqs [WordB, strs ws, WordB]"

definition rupeeAmount :: regex where
  "rupeeAmount =
     seqs [WordB, alts [Lit ''INR'', Seq (Lit ''Rs'') (Opt (Lit ''.'')), rupee],
           Star (Cls isSpace), Plus (Cls digitOrComma)]"

record SpamPatterns =
  promotional :: "RegExp list"
  financialScam :: "RegExp list"
  phishing :: "RegExp list"
  genericSpam :: "RegExp list"

record LegitimatePatterns =
  banking :: "RegExp list"
  otp :: "RegExp list"
  delivery :: "RegExp list"
  booking :: "RegExp list"
  service :: "RegExp list"

record NLPClassifierService =
  spamPatterns :: SpamPatterns
  legitimatePatterns :: LegitimatePatterns

text \<open>The field initialisers of the class: every pattern has the flags \<open>gi\<close>.\<close>

definition gi :: "regex \<Rightarrow> RegExp" where
  "gi r = new_RegExp r True"

definition new_NLPClassifierService :: NLPClassifierService where
  "new_NLPClassifierService =
    \<lparr>spamPatterns =
       \<lparr>promotional =
          [gi (words [''free'', ''offer'', ''discount'', ''sale'', ''deal'', ''limited time'',
                      ''hurry'', ''act now'']),
           gi (words [''click here'', ''visit'', ''shop now'', ''buy now'']),
           gi (words [''congratulations'', ''winner'', ''prize'', ''reward''])],
        financialScam =
          [gi (words [''lottery'', ''jackpot'', ''million'', ''billion'', ''won'', ''claim'']),
           gi (words [''urgent'', ''immediate action'', ''verify account'', ''suspended'']),
           gi (words [''refund'', ''tax return'', ''inheritance'', ''beneficiary''])],
        phishing =
          [gi (seqs [WordB, strs [''verify'', ''confirm'', ''update'', ''validate''], Lit '' '',
                     Opt (Lit ''your ''), strs [''account'', ''password'', ''card'', ''details''],
                     WordB]),
           gi (seqs [WordB, strs [''click'', ''tap''], Lit '' '', Opt (strs [''this '', ''the '']),
                     strs [''link'', ''url''], WordB]),
           gi (seqs [WordB, strs [''expire'', ''expired'', ''suspended'', ''locked''], Lit '' '',
                     strs [''account'', ''card''], WordB])],
        genericSpam =
          [gi (seqs [WordB, alts [Lit ''unsubscribe'',
                                  seqs [Lit ''opt'', Cls hyphenOrBlank, Lit ''out''],
                                  Lit ''reply stop''], WordB]),
           gi (words [''earn money'', ''work from home'', ''make $'']),
           gi (words [''no credit check'', ''guaranteed approval''])]\<rparr>,
     legitimatePatterns =
       \<lparr>banking =
          [gi (words [''credited'', ''debited'', ''transaction'', ''balance'', ''account'']),
           gi rupeeAmount,
           gi (words [''UPI'', ''NEFT'', ''RTGS'', ''IMPS'']),
           gi (words [''available balance'', ''current balance'', ''minimum balance'']),
           gi (seqs [WordB, Lit ''thank you for '', strs [''using'', ''banking'', ''shopping''],
                     WordB])],
        otp =
          [gi (seqs [WordB, alts [Lit ''OTP'',
                                  seqs [Lit ''one'', Cls hyphenOrBlank, Lit ''time password''],
                                  Lit ''verification code'', Lit ''security code''], WordB]),
           gi (seqs [WordB, rep 4 6 (Cls isDigit), WordB, Star (Cls isDot), WordB,
                     strs [''code'', ''OTP'', ''password'', ''pin''], WordB]),
           gi (seqs [WordB, Lit ''do not share '', Opt (strs [''this '', ''your '']),
                     strs [''code'', ''OTP'', ''password''], WordB]),
           gi (seqs [WordB, strs [''valid for'', ''expires in''], Lit '' '', Plus (Cls isDigit),
                     Opt (Cls isSpace), strs [''min'', ''minutes'', ''hour'', ''hours''], WordB])],
        delivery =
          [gi (words [''order'', ''parcel'', ''package'', ''delivery'', ''shipped'', ''dispatched'']),
           gi (seqs [WordB, alts [Seq (Lit ''tracking '') (strs [''id'', ''number'', ''code'']),
                                  Lit ''AWB''], WordB]),
           gi (words [''out for delivery'', ''delivered'', ''in transit'']),
           gi (words [''expected delivery'', ''estimated delivery''])],
        booking =
          [gi (words [''booking'', ''reservation'', ''confirmed'', ''ticket'', ''PNR'']),
           gi (seqs [WordB, strs [''flight'', ''train'', ''bus'', ''hotel'', ''movie''], WordB,
                     Star (Cls isDot), WordB, strs [''confirmed'', ''booked''], WordB]),
           gi (seqs [WordB, alts [Seq (Lit ''seat '') (strs [''number'', ''no'']), Lit ''berth''],
                     WordB])],
        service =
          [gi (words [''appointment'', ''reminder'', ''scheduled'', ''meeting'']),
           gi (words [''bill'', ''invoice'', ''payment'', ''due'', ''statement'']),
           gi (words [''subscription'', ''renewal'', ''plan''])]\<rparr>\<rparr>"

text \<open>
  \<open>detectURLs\<close>, \<open>detectPhoneNumbers\<close> and \<open>detectMoneyAmounts\<close> build their pattern
  objects at every call, so each \<open>test\<close> starts at \<open>lastIndex = 0\<close> and the objects are
  dropped afterwards.
\<close>

definition detectURLs :: "string \<Rightarrow> bool" where
  "detectURLs text =
     fst (some_test
       [gi (seqs [Lit ''http'', Opt (Lit ''s''), Lit ''://'']),
        gi (Lit ''www.''),
        gi (seqs [WordB, Plus (Cls isWord), Lit ''.'',
                  strs [''com'', ''in'', ''org'', ''net'', ''co.in'', ''me'', ''io''], WordB]),
        gi (strs [''bit.ly'', ''goo.gl'', ''tinyurl''])] text)"

definition detectPhoneNumbers :: "string \<Rightarrow> bool" where
  "detectPhoneNumbers text =
     fst (some_test
       [new_RegExp (seqs [WordB, rep 10 10 (Cls isDigit), WordB]) False,
        new_RegExp (seqs [Lit ''+91'', Opt (Cls spaceOrHyphen), rep 10 10 (Cls isDigit)]) False,
        new_RegExp (seqs [rep 3 3 (Cls isDigit), Cls spaceOrHyphen, rep 3 3 (Cls isDigit),
                          Cls spaceOrHyphen, rep 4 4 (Cls isDigit)]) False] text)"

definition detectMoneyAmounts :: "string \<Rightarrow> bool" where
  "detectMoneyAmounts text =
     fst (some_test
       [gi rupeeAmount,
        new_RegExp (seqs [Lit ''$'', Star (Cls isSpace), Plus (Cls digitOrComma)]) False,
        gi (seqs [WordB, Plus (Cls isDigit), Star (Cls isSpace),
                  strs [''crore'', ''lakh'', ''thousand'', ''million'', ''billion''], WordB])] text)"

text \<open>The number of matches of a pattern object built on the spot:
  \<open>(text.match(/.../g) || []).length\<close>.\<close>

definition matchCount :: "string \<Rightarrow> regex \<Rightarrow> int" where
  "matchCount text r = int (length (fst (string_match text (new_RegExp r False))))"

definition tokenize_nlp :: "string \<Rightarrow> string list" where
  "tokenize_nlp text =
     (let s = toLowerCase text
      in map (\<lambda>(j, k). take (k - j) (drop j s))
           (fst (string_match s (new_RegExp (seqs [WordB, Plus (Cls isWord), WordB]) False))))"

definition urgentWords :: "string list" where
  "urgentWords =
     [''urgent'', ''immediately'', ''now'', ''hurry'', ''quick'', ''fast'',
      ''expire'', ''expires'', ''limited'', ''today'', ''act now'', ''deadline'']"

definition calculateUrgencyScore :: "string \<Rightarrow> real" where
  "calculateUrgencyScore text =
     (let score = fold (\<lambda>word score. if includes_str text word then score + 0.1 else score)
                    urgentWords 0;
          exclamations = matchCount text (Plus (Lit ''!''));
          score = score + min (of_int exclamations * 0.05) 0.3
      in min score 1)"

text \<open>
  \<open>analyzeSentiment\<close> asks the compromise library whether the document has a word. The
  library is not part of the repository: its answer is the parameter \<open>has\<close>, a function of
  the text and the word.
\<close>

definition analyzeSentiment :: "(string \<Rightarrow> string \<Rightarrow> bool) \<Rightarrow> string \<Rightarrow> real" where
  "analyzeSentiment has text =
     (let sentiment = fold (\<lambda>word sentiment. if has text word then sentiment + 0.1 else sentiment)
                        [''free'', ''win'', ''winner'', ''congratulations'', ''amazing'', ''best''] 0;
          sentiment = fold (\<lambda>word sentiment. if has text word then sentiment - 0.1 else sentiment)
                        [''expire'', ''suspend'', ''block'', ''urgent'', ''warning'', ''alert''] sentiment
      in sentiment)"

text \<open>\<open>countSpamKeywords\<close> and \<open>countLegitimatePatterns\<close> walk the families in the order
  of their declaration and call \<open>text.match\<close> on the pattern objects of the instance.\<close>

definition countSpamKeywords :: "NLPClassifierService \<Rightarrow> string \<Rightarrow> int \<times> NLPClassifierService" where
  "countSpamKeywords svc text =
     (let sp = spamPatterns svc in
      case count_matches (promotional sp) text of (n1, p1) \<Rightarrow>
      case count_matches (financialScam sp) text of (n2, p2) \<Rightarrow>
      case count_matches (phishing sp) text of (n3, p3) \<Rightarrow>
      case count_matches (genericSpam sp) text of (n4, p4) \<Rightarrow>
        (n1 + n2 + n3 + n4,
         svc\<lparr>spamPatterns := \<lparr>promotional = p1, financialScam = p2, phishing = p3,
                               genericSpam = p4\<rparr>\<rparr>))"

definition countLegitimatePatterns :: "NLPClassifierService \<Rightarrow> string \<Rightarrow> int \<times> NLPClassifierService" where
  "countLegitimatePatterns svc text =
     (let lp = legitimatePatterns svc in
      case count_matches (banking lp) text of (n1, p1) \<Rightarrow>
      case count_matches (otp lp) text of (n2, p2) \<Rightarrow>
      case count_matches (delivery lp) text of (n3, p3) \<Rightarrow>
      case count_matches (booking lp) text of (n4, p4) \<Rightarrow>
      case count_matches (service lp) text of (n5, p5) \<Rightarrow>
        (n1 + n2 + n3 + n4 + n5,
         svc\<lparr>legitimatePatterns := \<lparr>banking = p1, otp = p2, delivery = p3, booking = p4,
                                     service = p5\<rparr>\<rparr>))"

text \<open>\<open>detectOTP\<close> and \<open>detectBankingTerms\<close> call \<open>test\<close> on the pattern objects of the
  instance.\<close>

definition detectOTP :: "NLPClassifierService \<Rightarrow> string \<Rightarrow> bool \<times> NLPClassifierService" where
  "detectOTP svc text =
     (case some_test (otp (legitimatePatterns svc)) text of
        (b, ps) \<Rightarrow> (b, svc\<lparr>legitimatePatterns := (legitimatePatterns svc)\<lparr>otp := ps\<rparr>\<rparr>))"

definition detectBankingTerms :: "NLPClassifierService \<Rightarrow> string \<Rightarrow> bool \<times> NLPClassifierService" where
  "detectBankingTerms svc text =
     (case some_test (banking (legitimatePatterns svc)) text of
        (b, ps) \<Rightarrow> (b, svc\<lparr>legitimatePatterns := (legitimatePatterns svc)\<lparr>banking := ps\<rparr>\<rparr>))"

definition calculateCapitalRatio :: "string \<Rightarrow> real" where
  "calculateCapitalRatio text =
     (let letters = filter isLetter text in
      if length letters = 0 then 0
      else let capitals = filter isUpperAscii text
           in real (length capitals) / real (length letters))"

record Features =
  hasURL :: bool
  hasPhoneNumber :: bool
  hasMoneyAmount :: bool
  urgencyScore :: real
  sentimentScore :: real
  spamKeywordCount :: int
  legitPatternCount :: int
  hasOTP :: bool
  hasBankingTerms :: bool
  capitalRatio :: real
  exclamationCount :: int
  questionCount :: int
  wordCount :: int

text \<open>\<open>calculateSpamScore\<close> and the rest of \<open>classifyMessage\<close> compute in doubles: each
  sum, difference, product and quotient is rounded, and each weight is the double of its
  decimal literal. The counts are integers and enter as they are.\<close>

definition calculateSpamScore :: "Features \<Rightarrow> real" where
  "calculateSpamScore features =
     (let score = 0.5;
          score = (if spamKeywordCount features > 0
                   then add_d score (mul_d (of_int (spamKeywordCount features)) (toDouble 0.15))
                   else score);
          score = (if urgencyScore features > 0.5 then add_d score (toDouble 0.2) else score);
          score = (if capitalRatio features > 0.5 then add_d score (toDouble 0.15) else score);
          score = (if exclamationCount features > 2 then add_d score (toDouble 0.1) else score);
          score = (if hasURL features \<and> \<not> hasBankingTerms features
                   then add_d score (toDouble 0.2) else score);
          score = (if legitPatternCount features > 0
                   then sub_d score (mul_d (of_int (legitPatternCount features)) (toDouble 0.2))
                   else score);
          score = (if hasOTP features then sub_d score (toDouble 0.4) else score);
          score = (if hasBankingTerms features then sub_d score (toDouble 0.3) else score);
          score = (if hasMoneyAmount features \<and> hasBankingTerms features
                   then sub_d score (toDouble 0.2) else score)
      in max 0 (min 1 score))"

definition generateReason :: "Features \<Rightarrow> bool \<Rightarrow> real \<Rightarrow> string" where
  "generateReason features spam score =
     (if spam then
        (let reasons =
               (if spamKeywordCount features > 0
                then [showInt (spamKeywordCount features) @ '' spam keyword(s)''] else [])
             @ (if urgencyScore features > 0.5 then [''urgent language''] else [])
             @ (if capitalRatio features > 0.5 then [''excessive capitalization''] else [])
             @ (if hasURL features then [''contains suspicious link''] else [])
             @ (if exclamationCount features > 2 then [''multiple exclamation marks''] else [])
         in if length reasons > 0 then ''Spam detected: '' @ join '', '' reasons
            else ''Spam pattern detected'')
      else
        (let reasons =
               (if hasOTP features then [''OTP/verification code''] else [])
             @ (if hasBankingTerms features then [''banking transaction''] else [])
             @ (if legitPatternCount features > 0
                then [showInt (legitPatternCount features) @ '' legitimate pattern(s)''] else [])
         in if length reasons > 0 then ''Legitimate: '' @ join '', '' reasons
            else ''No spam indicators found''))"

record NLPResult = ClassificationResult +
  features :: Features

text \<open>
  The body of \<open>classifyMessage\<close> in two halves: \<open>extractFeatures\<close> is the object literal
  that computes the features, in the order of its properties; \<open>classifyFeatures\<close> is the
  rest, from \<open>calculateSpamScore\<close> to the returned object.
\<close>

definition extractFeatures ::
  "(string \<Rightarrow> string \<Rightarrow> bool) \<Rightarrow> NLPClassifierService \<Rightarrow> string \<Rightarrow> Features \<times> NLPClassifierService" where
  "extractFeatures has svc message =
     (let text = toLowerCase message in
      case countSpamKeywords svc text of (nSpam, svc1) \<Rightarrow>
      case countLegitimatePatterns svc1 text of (nLegit, svc2) \<Rightarrow>
      case detectOTP svc2 text of (otpHit, svc3) \<Rightarrow>
      case detectBankingTerms svc3 text of (bankHit, svc4) \<Rightarrow>
        (\<lparr>hasURL = detectURLs text,
          hasPhoneNumber = detectPhoneNumbers text,
          hasMoneyAmount = detectMoneyAmounts text,
          urgencyScore = calculateUrgencyScore text,
          sentimentScore = analyzeSentiment has text,
          spamKeywordCount = nSpam,
          legitPatternCount = nLegit,
          hasOTP = otpHit,
          hasBankingTerms = bankHit,
          capitalRatio = calculateCapitalRatio message,
          exclamationCount = matchCount message (Lit ''!''),
          questionCount = matchCount message (Lit ''?''),
          wordCount = int (length (tokenize_nlp text))\<rparr>, svc4))"

definition classifyFeatures :: "Features \<Rightarrow> NLPResult" where
  "classifyFeatures fs =
     (let score = calculateSpamScore fs;
          spam = (score > 0.5);
          conf = mul_d \<bar>sub_d score 0.5\<bar> 2;
          why = generateReason fs spam score
      in \<lparr>isSpam = spam, confidence = div_d (Math_round (mul_d conf 100)) 100, reason = why,
          features = fs\<rparr>)"

definition classifyMessage_nlp ::
  "(string \<Rightarrow> string \<Rightarrow> bool) \<Rightarrow> NLPClassifierService \<Rightarrow> string \<Rightarrow> NLPResult \<times> NLPClassifierService" where
  "classifyMessage_nlp has svc message =
     (case extractFeatures has svc message of (fs, svc') \<Rightarrow> (classifyFeatures fs, svc'))"

text \<open>The service after it has classified the given messages one after the other.\<close>

fun classifyAll ::
  "(string \<Rightarrow> string \<Rightarrow> bool) \<Rightarrow> NLPClassifierService \<Rightarrow> string list \<Rightarrow> NLPClassifierService" where
  "classifyAll has svc [] = svc"
| "classifyAll has svc (m # ms) = classifyAll has (snd (classifyMessage_nlp has svc m)) ms"

text \<open>
  The only mutable part of the service is the \<open>lastIndex\<close> of its pattern objects.
  \<open>resetService\<close> sets all of them to 0; it serves to compare two states of the service.
\<close>

definition resetRegExp :: "RegExp \<Rightarrow> RegExp" where
  "resetRegExp p = p\<lparr>lastIndex := 0\<rparr>"

definition resetService :: "NLPClassifierService \<Rightarrow> NLPClassifierService" where
  "resetService svc =
     \<lparr>spamPatterns =
        \<lparr>promotional = map resetRegExp (promotional (spamPatterns svc)),
         financialScam = map resetRegExp (financialScam (spamPatterns svc)),
         phishing = map resetRegExp (phishing (spamPatterns svc)),
         genericSpam = map resetRegExp (genericSpam (spamPatterns svc))\<rparr>,
      legitimatePatterns =
        \<lparr>banking = map resetRegExp (banking (legitimatePatterns svc)),
         otp = map resetRegExp (otp (legitimatePatterns svc)),
         delivery = map resetRegExp (delivery (legitimatePatterns svc)),
         booking = map resetRegExp (booking (legitimatePatterns svc)),
         service = map resetRegExp (service (legitimatePatterns svc))\<rparr>\<rparr>"

section \<open>Text preprocessing (src/utils/textPreprocessing.ts)\<close>

text \<open>\<open>s.replace(/.../g, new)\<close>: every match, from left to right, is replaced.\<close>

fun rebuild :: "string \<Rightarrow> nat \<Rightarrow> (nat \<times> nat) list \<Rightarrow> string \<Rightarrow> string" where
  "rebuild s pos [] new = drop pos s"
| "rebuild s pos ((j, k) # ms) new = take (j - pos) (drop pos s) @ new @ rebuild s k ms new"

definition string_replace :: "string \<Rightarrow> regex \<Rightarrow> string \<Rightarrow> string" where
  "string_replace s r new = rebuild s 0 (fst (string_match s (new_RegExp r False))) new"

definition trim :: "string \<Rightarrow> string" where
  "trim s = rev (dropWhile isSpace (rev (dropWhile isSpace s)))"

text \<open>\<open>s.split(' ')\<close>; the empty string gives one empty piece.\<close>

fun split_on :: "char \<Rightarrow> string \<Rightarrow> string list" where
  "split_on c [] = [[]]"
| "split_on c (d # s) =
     (if d = c then [] # split_on c s
      else (case split_on c s of [] \<Rightarrow> [[d]] | w # ws \<Rightarrow> (d # w) # ws))"

definition wordDotHyphen :: "char \<Rightarrow> bool" where
  "wordDotHyphen c = (isWord c \<or> c = CHR ''.'' \<or> c = CHR ''-'')"

definition hyphenDotSpace :: "char \<Rightarrow> bool" where
  "hyphenDotSpace c = (c = CHR ''-'' \<or> c = CHR ''.'' \<or> isSpace c)"

definition punctuation :: "char \<Rightarrow> bool" where
  "punctuation c = (\<not> isWord c \<and> \<not> isSpace c \<and> c \<noteq> CHR 0x27)"

definition preprocessText :: "string \<Rightarrow> string" where
  "preprocessText text =
     (if text = [] then []
      else
        (let processed = toLowerCase text;
             processed = string_replace processed
               (seqs [Lit ''http'', Opt (Lit ''s''), Lit ''://'', Plus (Cls (\<lambda>c. \<not> isSpace c))]) '' '';
             processed = string_replace processed
               (seqs [Plus (Cls wordDotHyphen), Lit ''@'', Plus (Cls wordDotHyphen), Lit ''.'',
                      Plus (Cls isWord)]) '' '';
             processed = string_replace processed
               (seqs [Opt (seqs [Opt (Lit ''+''), rep 1 3 (Cls isDigit), Opt (Cls hyphenDotSpace)]),
                      Opt (Lit ''(''), rep 3 3 (Cls isDigit), Opt (Lit '')''),
                      Opt (Cls hyphenDotSpace), rep 3 3 (Cls isDigit), Opt (Cls hyphenDotSpace),
                      rep 4 4 (Cls isDigit)]) '' '';
             processed = string_replace processed (Cls punctuation) '' '';
             processed = trim (string_replace processed (Plus (Cls isSpace)) '' '')
         in processed))"

definition tokenize :: "string \<Rightarrow> string list" where
  "tokenize text = filter (\<lambda>word. length word > 0) (split_on CHR '' '' (preprocessText text))"

definition containsSpamKeywords :: "string \<Rightarrow> string list \<Rightarrow> bool" where
  "containsSpamKeywords text keywords =
     (let processed = preprocessText text
      in list_ex (\<lambda>keyword. includes_str processed (toLowerCase keyword)) keywords)"

text \<open>The test of the loop in \<open>calculateKeywordSpamScore\<close>: the token is part of a
  keyword or a keyword is part of the token.\<close>

definition tokenMatches :: "string list \<Rightarrow> string \<Rightarrow> bool" where
  "tokenMatches processedKeywords token =
     list_ex (\<lambda>keyword. includes_str keyword token \<or> includes_str token keyword) processedKeywords"

definition calculateKeywordSpamScore :: "string \<Rightarrow> string list \<Rightarrow> real" where
  "calculateKeywordSpamScore text keywords =
     (let tokens = tokenize text in
      if length tokens = 0 then 0
      else
        (let processedKeywords = map toLowerCase keywords;
             matchCount = length (filter (tokenMatches processedKeywords) tokens)
         in min (real matchCount / real (length tokens)) 1))"

definition truncateText :: "string \<Rightarrow> nat \<Rightarrow> string" where
  "truncateText text maxLength =
     (if length text \<le> maxLength then text else take maxLength text @ ''...'')"

section \<open>The classification service (src/services/classificationService.ts)\<close>

text \<open>
  A number of a JSON text is a finite number or, when it is too large, an infinity;
  \<open>JSON.parse\<close> never produces \<open>NaN\<close>.
\<close>

datatype jsnum = Finite real | PosInfinity | NegInfinity

datatype json =
    JNull
  | JBool bool
  | JNumber jsnum
  | JString string
  | JArray "json list"
  | JObject "(string \<times> json) list"

text \<open>Reading a property of a parsed value: of two members with the same name the last
  one counts; reading a property of \<open>null\<close> throws; other values have no such property.\<close>

datatype exn = Thrown string

definition getProp :: "json \<Rightarrow> string \<Rightarrow> exn + json option" where
  "getProp v name =
     (case v of
        JObject members \<Rightarrow> Inr (map_of (rev members) name)
      | JNull \<Rightarrow> Inl (Thrown ''TypeError'')
      | _ \<Rightarrow> Inr None)"

text \<open>\<open>Math.max(0, Math.min(1, x))\<close> on such a number.\<close>

definition clampUnit :: "jsnum \<Rightarrow> real" where
  "clampUnit x = (case x of Finite r \<Rightarrow> max 0 (min 1 r) | PosInfinity \<Rightarrow> 1 | NegInfinity \<Rightarrow> 0)"

text \<open>
  The state of the service: the fields of the class (\<open>genAI\<close> and \<open>model\<close> record whether
  the field is non-null), and two parts of the world the service acts on: the clock that
  \<open>Date.now\<close> reads and the prompts sent to the model so far.
\<close>

record ClassificationService =
  genAI :: bool
  model :: bool
  apiKey :: "string option"
  rateLimitMs :: int
  lastCallTime :: int
  clock :: int
  requests :: "string list"

text \<open>
  What is outside the program: the call of the model is rejected (network error, timeout)
  or gives a response text, depending on the position of the call and the prompt; and
  \<open>JSON.parse\<close>, which throws (\<open>None\<close>) or gives the parsed value.
\<close>

datatype ai_response = Rejected | ResponseText string

record AIEnv =
  generateContent :: "nat \<Rightarrow> string \<Rightarrow> ai_response"
  JSON_parse :: "string \<Rightarrow> json option"

definition new_ClassificationService :: ClassificationService where
  "new_ClassificationService =
     \<lparr>genAI = False, model = False, apiKey = None, rateLimitMs = 2000, lastCallTime = 0,
      clock = 0, requests = []\<rparr>"

definition initialize :: "ClassificationService \<Rightarrow> string \<Rightarrow> int \<Rightarrow> exn + ClassificationService" where
  "initialize s key rate =
     (if key = [] then Inl (Thrown ''Gemini API key is required'')
      else Inr (s\<lparr>apiKey := Some key, rateLimitMs := rate, genAI := True, model := True\<rparr>))"

definition isInitialized :: "ClassificationService \<Rightarrow> bool" where
  "isInitialized s = (genAI s \<and> model s)"

text \<open>\<open>waitForRateLimit\<close>: the sleep moves the clock on by the time waited.\<close>

definition waitForRateLimit :: "ClassificationService \<Rightarrow> ClassificationService" where
  "waitForRateLimit s =
     (let now = clock s;
          timeSinceLastCall = now - lastCallTime s;
          s1 = (if timeSinceLastCall < rateLimitMs s
                then s\<lparr>clock := now + (rateLimitMs s - timeSinceLastCall)\<rparr> else s)
      in s1\<lparr>lastCallTime := clock s1\<rparr>)"

definition newline :: string where
  "newline = [CHR 0x0A]"

definition buildPrompt :: "string \<Rightarrow> string" where
  "buildPrompt truncated =
     ''You are an SMS spam detector. Analyze the following SMS message and classify it as spam or ham (not spam).''
     @ newline @ newline
     @ ''SMS Message: \"'' @ truncated @ ''\"'' @ newline @ newline
     @ ''Classify this message and respond with ONLY valid JSON in this exact format:'' @ newline
     @ ''{'' @ newline
     @ ''  \"isSpam\": true or false,'' @ newline
     @ ''  \"confidence\": 0.0 to 1.0,'' @ newline
     @ ''  \"reason\": \"brief one-sentence explanation\"'' @ newline
     @ ''}'' @ newline @ newline
     @ ''Consider these spam indicators:'' @ newline
     @ ''- Unsolicited offers, prizes, or giveaways'' @ newline
     @ ''- Urgent calls to action (limited time, act now)'' @ newline
     @ ''- Requests for personal/financial information'' @ newline
     @ ''- Suspicious links or phone numbers'' @ newline
     @ ''- Poor grammar or excessive capital letters'' @ newline
     @ ''- Financial schemes (loans, investments, crypto)'' @ newline
     @ ''- Phishing attempts'' @ newline @ newline
     @ ''Respond ONLY with the JSON object, no other text.''"

text \<open>\<open>responseText.match(/\{[\s\S]*\}/)\<close>: from the first opening brace to the last
  closing brace.\<close>

definition jsonMatch :: "string \<Rightarrow> string option" where
  "jsonMatch responseText =
     (case exec_from (new_RegExp (seqs [Lit ''{'', Star (Cls (\<lambda>c. True)), Lit ''}'']) False)
             responseText of
        None \<Rightarrow> None
      | Some (j, k) \<Rightarrow> Some (take (k - j) (drop j responseText)))"

text \<open>The \<open>try\<close> block of \<open>classifyWithAI\<close> that parses and checks the response.\<close>

definition parseResponse :: "AIEnv \<Rightarrow> string \<Rightarrow> exn + ClassificationResult" where
  "parseResponse env responseText =
     (case jsonMatch responseText of
        None \<Rightarrow> Inl (Thrown ''No JSON found in response'')
      | Some txt \<Rightarrow>
         (case JSON_parse env txt of
            None \<Rightarrow> Inl (Thrown ''SyntaxError'')
          | Some parsed \<Rightarrow>
             (case (getProp parsed ''isSpam'', getProp parsed ''confidence'', getProp parsed ''reason'') of
                (Inr (Some (JBool b)), Inr (Some (JNumber c)), Inr (Some (JString r))) \<Rightarrow>
                   Inr \<lparr>isSpam = b, confidence = clampUnit c, reason = r\<rparr>
              | (Inl e, _, _) \<Rightarrow> Inl e
              | _ \<Rightarrow> Inl (Thrown ''Invalid response structure''))))"

definition classifyWithAI ::
  "AIEnv \<Rightarrow> ClassificationService \<Rightarrow> string \<Rightarrow> (exn + ClassificationResult) \<times> ClassificationService" where
  "classifyWithAI env s text =
     (if \<not> model s then (Inl (Thrown ''Classification service not initialized''), s)
      else
        (let s1 = waitForRateLimit s;
             processed = preprocessText text;
             truncated = truncateText processed 500;
             prompt = buildPrompt truncated;
             s2 = s1\<lparr>requests := requests s1 @ [prompt]\<rparr>
         in case generateContent env (length (requests s1)) prompt of
              Rejected \<Rightarrow> (Inl (Thrown ''request failed''), s2)
            | ResponseText responseText \<Rightarrow>
                (case parseResponse env responseText of
                   Inl parseError \<Rightarrow> (Inl (Thrown ''Invalid AI response format''), s2)
                 | Inr result \<Rightarrow> (Inr result, s2))))"

definition classifyWithKeywords :: "string \<Rightarrow> ClassificationResult" where
  "classifyWithKeywords text =
     (let score = calculateKeywordSpamScore text SPAM_KEYWORDS;
          spam = (score > 0.15)
      in \<lparr>isSpam = spam,
          confidence = min (score * 2) 0.85,
          reason = (if spam
                    then ''Detected spam keywords ('' @ showInt \<lfloor>Math_round (score * 100)\<rfloor>
                         @ ''% match). Using fallback detection.''
                    else ''No significant spam keywords detected. Using fallback detection.'')\<rparr>)"

text \<open>\<open>classifyMessage\<close>: the result type allows an exception, as that of every
  JavaScript function does.\<close>

definition classifyMessage ::
  "AIEnv \<Rightarrow> ClassificationService \<Rightarrow> string \<Rightarrow> (exn + ClassificationResult) \<times> ClassificationService" where
  "classifyMessage env s text =
     (if isInitialized s then
        (case classifyWithAI env s text of
           (Inr result, s') \<Rightarrow> (Inr result, s')
         | (Inl error, s') \<Rightarrow> (Inr (classifyWithKeywords text), s'))
      else (Inr (classifyWithKeywords text), s))"

section \<open>Telegram notification service (src/services/telegramService.ts)\<close>

record TelegramConfig =
  botToken :: string
  chatId :: string
  enabled :: bool

record QueueItem =
  message :: SMSMessage
  retries :: nat

text \<open>
  The service object. \<open>client\<close> records whether the axios client is non-null.
  \<open>posted\<close> is the trace of the texts handed to the HTTP client so far: it is the
  only effect of the service outside its own fields.
\<close>

record TelegramService =
  config :: "TelegramConfig option"
  client :: bool
  queue :: "QueueItem list"
  isProcessing :: bool
  posted :: "string list"

text \<open>
  What the HTTP call does is not decided by the program: the call is rejected
  (network error, timeout) or it resolves with a response whose \<open>ok\<close> field is
  given. The environment answers each call from its position in the trace and its text.
\<close>

datatype post_result = PostRejected | PostResponse bool

record TelegramEnv =
  post :: "nat \<Rightarrow> string \<Rightarrow> post_result"
  formatSpamMessage :: "SMSMessage \<Rightarrow> string"

record QueueCounts =
  sent :: nat
  failed :: nat

definition isInitialized_tg :: "TelegramService \<Rightarrow> bool" where
  "isInitialized_tg s = (config s \<noteq> None \<and> client s)"

definition isEnabled :: "TelegramService \<Rightarrow> bool" where
  "isEnabled s = (case config s of None \<Rightarrow> False | Some c \<Rightarrow> enabled c)"

text \<open>\<open>sendMessage\<close> throws when the service is not set up, when the call is rejected and
  when the response is not ok.\<close>

definition sendMessage :: "TelegramEnv \<Rightarrow> TelegramService \<Rightarrow> string \<Rightarrow> (exn + unit) \<times> TelegramService" where
  "sendMessage env s txt =
     (if \<not> client s \<or> config s = None then (Inl (Thrown ''Telegram service not initialized''), s)
      else let s' = s\<lparr>posted := posted s @ [txt]\<rparr> in
        (case post env (length (posted s)) txt of
           PostRejected \<Rightarrow> (Inl (Thrown ''request failed''), s')
         | PostResponse ok \<Rightarrow>
             if \<not> ok then (Inl (Thrown ''Telegram API error''), s') else (Inr (), s')))"

text \<open>\<open>addToQueue\<close>: at 50 entries the oldest is shifted out, then the message is pushed
  with \<open>retries = 0\<close>.\<close>

definition addToQueue :: "TelegramService \<Rightarrow> SMSMessage \<Rightarrow> TelegramService" where
  "addToQueue s m =
     (let q = (if length (queue s) \<ge> 50 then tl (queue s) else queue s)
      in s\<lparr>queue := q @ [\<lparr>message = m, retries = 0\<rparr>]\<rparr>)"

text \<open>\<open>sendSpamNotification\<close> has a result type that allows an exception, as every
  JavaScript function does; each of its branches returns.\<close>

definition sendSpamNotification ::
  "TelegramEnv \<Rightarrow> TelegramService \<Rightarrow> SMSMessage \<Rightarrow> (exn + bool) \<times> TelegramService" where
  "sendSpamNotification env s m =
     (if \<not> isInitialized_tg s \<or> \<not> isEnabled s then (Inr False, s)
      else (case sendMessage env s (formatSpamMessage env m) of
              (Inr u, s') \<Rightarrow> (Inr True, s')
            | (Inl e, s') \<Rightarrow> (Inr False, addToQueue s' m)))"

text \<open>The loop of \<open>processQueue\<close> over the copied items; the accumulator holds the two
  counters. The \<open>catch\<close> block is the \<open>Inl\<close> branch.\<close>

fun processItems ::
  "TelegramEnv \<Rightarrow> QueueItem list \<Rightarrow> QueueCounts \<times> TelegramService \<Rightarrow> QueueCounts \<times> TelegramService" where
  "processItems env [] acc = acc"
| "processItems env (item # items) (c, s) =
     (case sendSpamNotification env s (message item) of
        (Inr b, s') \<Rightarrow> processItems env items (c\<lparr>sent := sent c + 1\<rparr>, s')
      | (Inl e, s') \<Rightarrow>
          (let item' = item\<lparr>retries := retries item + 1\<rparr> in
           if retries item' < 3
           then processItems env items (c, s'\<lparr>queue := queue s' @ [item']\<rparr>)
           else processItems env items (c\<lparr>failed := failed c + 1\<rparr>, s')))"

definition processQueue :: "TelegramEnv \<Rightarrow> TelegramService \<Rightarrow> QueueCounts \<times> TelegramService" where
  "processQueue env s =
     (if \<not> isInitialized_tg s \<or> \<not> isEnabled s \<or> isProcessing s
      then (\<lparr>sent = 0, failed = 0\<rparr>, s)
      else
        (let s1 = s\<lparr>isProcessing := True\<rparr>;
             itemsToProcess = queue s1;
             s2 = s1\<lparr>queue := []\<rparr>;
             (c, s3) = processItems env itemsToProcess (\<lparr>sent = 0, failed = 0\<rparr>, s2)
         in (c, s3\<lparr>isProcessing := False\<rparr>)))"

text \<open>Running \<open>processQueue\<close> \<open>n\<close> times in a row; the counts of each run are collected.\<close>

fun drainCycles :: "TelegramEnv \<Rightarrow> nat \<Rightarrow> TelegramService \<Rightarrow> QueueCounts list \<times> TelegramService" where
  "drainCycles env 0 s = ([], s)"
| "drainCycles env (Suc n) s =
     (let (c, s') = processQueue env s; (cs, s'') = drainCycles env n s' in (c # cs, s''))"

section \<open>The message store (class DatabaseService)\<close>

text \<open>
  A row of the table \<open>sms_messages\<close>; the table is a map from the primary key \<open>id\<close> to
  the other columns. \<open>is_spam\<close> holds 1, 0 or \<open>NULL\<close>.
\<close>

record Row =
  col_sender :: string
  col_body :: string
  col_timestamp :: int
  is_spam :: "int option"
  col_confidence :: "real option"
  col_reason :: "string option"
  classified_at :: "int option"
  created_at :: int

text \<open>
  The store counts its statements. Whether a statement fails (the database cannot be
  opened, the statement is rejected) and what the clock shows when it runs are decided
  outside the program; a statement that fails changes no row.
\<close>

record DatabaseService =
  sms_messages :: "string \<rightharpoonup> Row"
  statements :: nat

record DbEnv =
  fails :: "nat \<Rightarrow> bool"
  timeAt :: "nat \<Rightarrow> int"

definition step_db :: "DatabaseService \<Rightarrow> DatabaseService" where
  "step_db d = d\<lparr>statements := statements d + 1\<rparr>"

text \<open>\<open>INSERT OR REPLACE\<close>: a row with the same id is replaced by the new one.\<close>

definition insertMessage :: "DbEnv \<Rightarrow> DatabaseService \<Rightarrow> SMSMessage \<Rightarrow> (exn + unit) \<times> DatabaseService" where
  "insertMessage env d m =
     (if fails env (statements d) then (Inl (Thrown ''database error''), step_db d)
      else (Inr (),
            step_db (d\<lparr>sms_messages := (sms_messages d)(id_m m \<mapsto>
              \<lparr>col_sender = sender m, col_body = body m, col_timestamp = timestamp m,
               is_spam = (case isSpam_m m of None \<Rightarrow> None
                          | Some b \<Rightarrow> Some (if b then 1 else 0)),
               col_confidence = confidence_m m, col_reason = reason_m m,
               classified_at = classifiedAt_m m,
               created_at = timeAt env (statements d)\<rparr>)\<rparr>)))"

text \<open>\<open>UPDATE ... WHERE id = ?\<close>: without such a row nothing changes.\<close>

definition updateClassification ::
  "DbEnv \<Rightarrow> DatabaseService \<Rightarrow> string \<Rightarrow> bool \<Rightarrow> real \<Rightarrow> string \<Rightarrow> (exn + unit) \<times> DatabaseService" where
  "updateClassification env d messageId spam conf why =
     (if fails env (statements d) then (Inl (Thrown ''database error''), step_db d)
      else (case sms_messages d messageId of
              None \<Rightarrow> (Inr (), step_db d)
            | Some row \<Rightarrow>
                (Inr (),
                 step_db (d\<lparr>sms_messages := (sms_messages d)(messageId \<mapsto>
                   row\<lparr>is_spam := Some (if spam then 1 else 0), col_confidence := Some conf,
                       col_reason := Some why,
                       classified_at := Some (timeAt env (statements d))\<rparr>)\<rparr>))))"

definition mapRowToMessage :: "string \<Rightarrow> Row \<Rightarrow> SMSMessage" where
  "mapRowToMessage key row =
     \<lparr>id_m = key, sender = col_sender row, body = col_body row, timestamp = col_timestamp row,
      isSpam_m = (case is_spam row of None \<Rightarrow> None | Some v \<Rightarrow> Some (v = 1)),
      confidence_m = col_confidence row, reason_m = col_reason row,
      classifiedAt_m = classified_at row\<rparr>"

definition getMessage ::
  "DbEnv \<Rightarrow> DatabaseService \<Rightarrow> string \<Rightarrow> (exn + SMSMessage option) \<times> DatabaseService" where
  "getMessage env d messageId =
     (if fails env (statements d) then (Inl (Thrown ''database error''), step_db d)
      else (Inr (map_option (mapRowToMessage messageId) (sms_messages d messageId)), step_db d))"

section \<open>The ingestion coordinator (src/services/smsMonitoringService.ts)\<close>

record NativeSmsMessage =
  native_id :: string
  native_sender :: string
  native_body :: string
  native_timestamp :: int

text \<open>
  The three services the coordinator drives. The callbacks of the user interface are left
  out: in \<open>loadAndClassifyInbox\<close> the callback is the last statement of the body of the
  loop, after the counter is incremented, and it acts on none of the three services.
\<close>

record World =
  database :: DatabaseService
  classifier :: ClassificationService
  telegram :: TelegramService

record MonitorEnv =
  dbEnv :: DbEnv
  aiEnv :: AIEnv
  telegramEnv :: TelegramEnv

text \<open>
  The body of the loop of \<open>loadAndClassifyInbox\<close> for one message of the inbox. The
  result tells whether \<open>processedCount\<close> was incremented; an exception anywhere ends the
  body, as the \<open>catch\<close> inside the loop does.
\<close>

definition processNative :: "MonitorEnv \<Rightarrow> World \<Rightarrow> NativeSmsMessage \<Rightarrow> bool \<times> World" where
  "processNative env w nativeMsg =
     (case getMessage (dbEnv env) (database w) (native_id nativeMsg) of
        (Inl e, d1) \<Rightarrow> (False, w\<lparr>database := d1\<rparr>)
      | (Inr (Some existing), d1) \<Rightarrow> (False, w\<lparr>database := d1\<rparr>)
      | (Inr None, d1) \<Rightarrow>
         (let m = \<lparr>id_m = native_id nativeMsg, sender = native_sender nativeMsg,
                   body = native_body nativeMsg, timestamp = native_timestamp nativeMsg,
                   isSpam_m = None, confidence_m = None, reason_m = None,
                   classifiedAt_m = None\<rparr>
          in case insertMessage (dbEnv env) d1 m of
               (Inl e, d2) \<Rightarrow> (False, w\<lparr>database := d2\<rparr>)
             | (Inr u, d2) \<Rightarrow>
                (case classifyMessage (aiEnv env) (classifier w) (body m) of
                   (Inl e, c1) \<Rightarrow> (False, w\<lparr>database := d2, classifier := c1\<rparr>)
                 | (Inr result, c1) \<Rightarrow>
                    (case updateClassification (dbEnv env) d2 (id_m m) (isSpam result)
                            (confidence result) (reason result) of
                       (Inl e, d3) \<Rightarrow> (False, w\<lparr>database := d3, classifier := c1\<rparr>)
                     | (Inr u, d3) \<Rightarrow>
                        (let m1 = m\<lparr>isSpam_m := Some (isSpam result),
                                    confidence_m := Some (confidence result),
                                    reason_m := Some (reason result)\<rparr>;
                             w3 = w\<lparr>database := d3, classifier := c1\<rparr>
                         in if isSpam result then
                              (case sendSpamNotification (telegramEnv env) (telegram w3) m1 of
                                 (Inl e, t1) \<Rightarrow> (False, w3\<lparr>telegram := t1\<rparr>)
                               | (Inr ok, t1) \<Rightarrow> (True, w3\<lparr>telegram := t1\<rparr>))
                            else (True, w3))))))"

fun inboxLoop :: "MonitorEnv \<Rightarrow> NativeSmsMessage list \<Rightarrow> nat \<times> World \<Rightarrow> nat \<times> World" where
  "inboxLoop env [] acc = acc"
| "inboxLoop env (nativeMsg # rest) (processedCount, w) =
     (case processNative env w nativeMsg of
        (counted, w') \<Rightarrow>
          inboxLoop env rest (if counted then processedCount + 1 else processedCount, w'))"

text \<open>
  \<open>loadAndClassifyInbox\<close>: the inbox is what \<open>SmsModule.getAllMessages(limit)\<close> gives, a
  list of messages or an exception, which is thrown on.
\<close>

definition loadAndClassifyInbox ::
  "MonitorEnv \<Rightarrow> World \<Rightarrow> exn + NativeSmsMessage list \<Rightarrow> (exn + nat) \<times> World" where
  "loadAndClassifyInbox env w inbox =
     (case inbox of
        Inl e \<Rightarrow> (Inl e, w)
      | Inr nativeMessages \<Rightarrow>
          (case inboxLoop env nativeMessages (0, w) of
             (processedCount, w') \<Rightarrow> (Inr processedCount, w')))"

section \<open>Properties of the rounding to doubles\<close>

lemma roundEven_near: "\<bar>of_int (roundEven r) - r\<bar> \<le> 1 / 2"
  unfolding roundEven_def Let_def by (auto simp: abs_if; linarith)

lemma roundEven_of_int: "roundEven (of_int n) = n"
  by (simp add: roundEven_def)

lemma roundEven_mono:
  assumes "r \<le> r'"
  shows "roundEven r \<le> roundEven r'"
proof (cases "\<lfloor>r\<rfloor> = \<lfloor>r'\<rfloor>")
  case True
  then show ?thesis
    using assms unfolding roundEven_def Let_def by auto
next
  case False
  then have lt: "\<lfloor>r\<rfloor> < \<lfloor>r'\<rfloor>"
    using assms floor_mono [of r r'] by linarith
  have "roundEven r \<le> \<lfloor>r\<rfloor> + 1"
    unfolding roundEven_def Let_def by auto
  moreover have "\<lfloor>r'\<rfloor> \<le> roundEven r'"
    unfolding roundEven_def Let_def by auto
  ultimately show ?thesis using lt by linarith
qed

text \<open>\<open>exponent\<close> finds the binade of a positive number.\<close>

lemma exponent_bounds:
  assumes "0 < x"
  shows "2 powi exponent x \<le> x \<and> x < 2 powi (exponent x + 1)"
proof (cases "1 \<le> x")
  case True
  let ?n = "\<lfloor>x\<rfloor>"
  have n: "0 < ?n" using True by simp
  have b: "2 ^ nat (bitlen ?n - 1) \<le> ?n \<and> ?n < 2 ^ nat (bitlen ?n)"
    using bitlen_bounds [OF n] .
  have k: "1 \<le> bitlen ?n"
    using n by (auto simp: bitlen_alt_def)
  have e: "exponent x = bitlen ?n - 1" using True by (simp add: exponent_def)
  have lo: "(2::real) ^ nat (bitlen ?n - 1) \<le> x"
  proof -
    have "(2::real) ^ nat (bitlen ?n - 1) = of_int (2 ^ nat (bitlen ?n - 1))" by simp
    also have "\<dots> \<le> of_int ?n" using b by (simp only: of_int_le_iff)
    also have "\<dots> \<le> x" by simp
    finally show ?thesis .
  qed
  have hi: "x < (2::real) ^ nat (bitlen ?n)"
  proof -
    have "?n + 1 \<le> 2 ^ nat (bitlen ?n)" using b by linarith
    then have "of_int (?n + 1) \<le> (of_int (2 ^ nat (bitlen ?n)) :: real)"
      by (simp only: of_int_le_iff)
    then have "of_int ?n + 1 \<le> (2::real) ^ nat (bitlen ?n)" by simp
    moreover have "x < of_int ?n + 1" by linarith
    ultimately show ?thesis by linarith
  qed
  show ?thesis
    using lo hi k by (simp add: e power_int_def nat_add_distrib)
next
  case False
  then have x1: "x < 1" by simp
  let ?n = "\<lceil>1 / x\<rceil>"
  let ?m = "?n - 1"
  have inv: "1 < 1 / x" using assms x1 by simp
  then have "1 < ?n" by linarith
  then have m: "0 < ?m" by simp
  have b: "2 ^ nat (bitlen ?m - 1) \<le> ?m \<and> ?m < 2 ^ nat (bitlen ?m)"
    using bitlen_bounds [OF m] .
  have k: "1 \<le> bitlen ?m"
    using m by (auto simp: bitlen_alt_def)
  have e: "exponent x = - bitlen ?m" using False by (simp add: exponent_def)
  have up: "1 / x \<le> (2::real) ^ nat (bitlen ?m)"
  proof -
    have "?n \<le> 2 ^ nat (bitlen ?m)" using b by linarith
    then have "of_int ?n \<le> (of_int (2 ^ nat (bitlen ?m)) :: real)"
      by (simp only: of_int_le_iff)
    then have "of_int ?n \<le> (2::real) ^ nat (bitlen ?m)" by simp
    moreover have "1 / x \<le> of_int ?n" by linarith
    ultimately show ?thesis by linarith
  qed
  have dn: "(2::real) ^ nat (bitlen ?m - 1) < 1 / x"
  proof -
    have "(2::real) ^ nat (bitlen ?m - 1) = of_int (2 ^ nat (bitlen ?m - 1))" by simp
    also have "\<dots> \<le> of_int ?m" using b by (simp only: of_int_le_iff)
    also have "\<dots> < 1 / x" by linarith
    finally show ?thesis .
  qed
  have lo: "2 powi (- bitlen ?m) \<le> x"
  proof -
    have "1 \<le> (2::real) ^ nat (bitlen ?m) * x"
      using up assms by (simp add: field_simps)
    then have "1 / (2::real) ^ nat (bitlen ?m) \<le> x"
      by (simp add: field_simps)
    then show ?thesis
      using k by (simp add: power_int_def field_simps)
  qed
  have hi: "x < 2 powi (- bitlen ?m + 1)"
  proof -
    have "(2::real) ^ nat (bitlen ?m - 1) * x < 1"
      using dn assms by (simp add: field_simps)
    then have "x < 1 / (2::real) ^ nat (bitlen ?m - 1)"
      by (simp add: field_simps)
    moreover have "2 powi (- bitlen ?m + 1) = 1 / (2::real) ^ nat (bitlen ?m - 1)"
      using k by (simp add: power_int_def field_simps)
    ultimately show ?thesis by simp
  qed
  show ?thesis using lo hi by (simp add: e)
qed

lemma binade_scaled:
  assumes "0 < x"
  shows "2 ^ 52 \<le> x / 2 powi (exponent x - 52) \<and> x / 2 powi (exponent x - 52) < 2 ^ 53"
proof -
  let ?e = "exponent x"
  let ?u = "(2::real) powi (?e - 52)"
  have b: "2 powi ?e \<le> x \<and> x < 2 powi (?e + 1)" using exponent_bounds [OF assms] .
  have u: "0 < ?u" by simp
  have lo: "2 powi ?e = 2 ^ 52 * ?u"
    by (simp add: power_int_diff)
  have hi: "2 powi (?e + 1) = 2 ^ 53 * ?u"
    by (simp add: power_int_diff power_int_add)
  have "2 ^ 52 * ?u \<le> x" using b lo by simp
  then have 1: "2 ^ 52 \<le> x / ?u" using u by (simp add: pos_le_divide_eq)
  have "x < 2 ^ 53 * ?u" using b hi by simp
  then have 2: "x / ?u < 2 ^ 53" using u by (simp add: pos_divide_less_eq)
  show ?thesis using 1 2 by simp
qed

text \<open>The nearest double of a number lies in the closed binade of the number.\<close>

lemma nearest_bounds:
  assumes "0 < x"
  shows "2 powi exponent x \<le> nearest x \<and> nearest x \<le> 2 powi (exponent x + 1)"
proof -
  let ?e = "exponent x"
  let ?u = "(2::real) powi (?e - 52)"
  let ?r = "x / ?u"
  have s: "2 ^ 52 \<le> ?r \<and> ?r < 2 ^ 53" using binade_scaled [OF assms] .
  have "roundEven (of_int (2 ^ 52)) \<le> roundEven ?r"
    using s by (intro roundEven_mono) simp
  then have 1: "2 ^ 52 \<le> roundEven ?r" by (simp only: roundEven_of_int)
  have "roundEven ?r \<le> roundEven (of_int (2 ^ 53))"
    using s by (intro roundEven_mono) simp
  then have 2: "roundEven ?r \<le> 2 ^ 53" by (simp only: roundEven_of_int)
  have u: "0 < ?u" by simp
  have lo: "2 powi ?e = 2 ^ 52 * ?u"
    by (simp add: power_int_diff)
  have hi: "2 powi (?e + 1) = 2 ^ 53 * ?u"
    by (simp add: power_int_diff power_int_add)
  have r1: "(2::real) ^ 52 \<le> of_int (roundEven ?r)"
  proof -
    have "(of_int (2 ^ 52) :: real) \<le> of_int (roundEven ?r)" using 1 by (simp only: of_int_le_iff)
    then show ?thesis by simp
  qed
  have r2: "of_int (roundEven ?r) \<le> (2::real) ^ 53"
  proof -
    have "of_int (roundEven ?r) \<le> (of_int (2 ^ 53) :: real)" using 2 by (simp only: of_int_le_iff)
    then show ?thesis by simp
  qed
  have "2 ^ 52 * ?u \<le> of_int (roundEven ?r) * ?u"
    using r1 u by (intro mult_right_mono) simp_all
  moreover have "of_int (roundEven ?r) * ?u \<le> 2 ^ 53 * ?u"
    using r2 u by (intro mult_right_mono) simp_all
  ultimately show ?thesis
    unfolding nearest_def Let_def lo hi by simp
qed

lemma exponent_mono:
  assumes "0 < x" and "x \<le> y"
  shows "exponent x \<le> exponent y"
proof (rule ccontr)
  assume "\<not> exponent x \<le> exponent y"
  then have "exponent y + 1 \<le> exponent x" by simp
  then have "(2::real) powi (exponent y + 1) \<le> 2 powi exponent x"
    by (intro power_int_increasing) simp_all
  moreover have "2 powi exponent x \<le> x" using exponent_bounds [OF assms(1)] by simp
  moreover have "y < 2 powi (exponent y + 1)" using exponent_bounds [of y] assms by simp
  ultimately show False using assms(2) by linarith
qed

lemma nearest_mono:
  assumes "0 < x" and "x \<le> y"
  shows "nearest x \<le> nearest y"
proof (cases "exponent x = exponent y")
  case True
  let ?u = "(2::real) powi (exponent y - 52)"
  have u: "0 < ?u" by simp
  have "x / ?u \<le> y / ?u" using assms(2) u by (simp add: divide_right_mono)
  then have "roundEven (x / ?u) \<le> roundEven (y / ?u)" by (rule roundEven_mono)
  then have "(of_int (roundEven (x / ?u)) :: real) \<le> of_int (roundEven (y / ?u))"
    by (simp only: of_int_le_iff)
  then have "of_int (roundEven (x / ?u)) * ?u \<le> of_int (roundEven (y / ?u)) * ?u"
    using u by (intro mult_right_mono) simp_all
  then show ?thesis by (simp add: nearest_def Let_def True)
next
  case False
  then have "exponent x + 1 \<le> exponent y"
    using exponent_mono [OF assms] by simp
  then have "(2::real) powi (exponent x + 1) \<le> 2 powi exponent y"
    by (intro power_int_increasing) simp_all
  moreover have "nearest x \<le> 2 powi (exponent x + 1)" using nearest_bounds [OF assms(1)] by simp
  moreover have "2 powi exponent y \<le> nearest y" using nearest_bounds [of y] assms by simp
  ultimately show ?thesis by linarith
qed

lemma nearest_pos: "0 < x \<Longrightarrow> 0 < nearest x"
proof -
  assume "0 < x"
  then have "2 powi exponent x \<le> nearest x" using nearest_bounds [of x] by simp
  moreover have "0 < (2::real) powi exponent x" by simp
  ultimately show ?thesis by linarith
qed

text \<open>Rounding keeps the order of two numbers.\<close>

lemma toDouble_mono:
  assumes "x \<le> y"
  shows "toDouble x \<le> toDouble y"
proof -
  consider (pp) "0 < x" | (np) "x \<le> 0" "0 < y" | (nz) "x < 0" "y = 0" | (zz) "x = 0" "y = 0"
    | (nn) "x < 0" "y < 0"
    using assms by linarith
  then show ?thesis
  proof cases
    case pp
    then show ?thesis using assms nearest_mono [of x y] by (simp add: toDouble_def)
  next
    case np
    then show ?thesis
      using nearest_pos [of y] nearest_pos [of "- x"] by (auto simp: toDouble_def)
  next
    case nz
    then show ?thesis using nearest_pos [of "- x"] by (simp add: toDouble_def)
  next
    case zz
    then show ?thesis by simp
  next
    case nn
    then show ?thesis using assms nearest_mono [of "- y" "- x"] by (simp add: toDouble_def)
  qed
qed

text \<open>Rounding moves a number by at most the fraction \<open>2^-53\<close> of its size.\<close>

lemma nearest_error:
  assumes "0 < x"
  shows "\<bar>nearest x - x\<bar> \<le> x / 2 ^ 53"
proof -
  let ?u = "(2::real) powi (exponent x - 52)"
  have u: "0 < ?u" by simp
  have "\<bar>of_int (roundEven (x / ?u)) - x / ?u\<bar> \<le> 1 / 2" by (rule roundEven_near)
  then have "\<bar>of_int (roundEven (x / ?u)) - x / ?u\<bar> * ?u \<le> 1 / 2 * ?u"
    using u by (intro mult_right_mono) simp_all
  moreover have "\<bar>of_int (roundEven (x / ?u)) - x / ?u\<bar> * ?u = \<bar>nearest x - x\<bar>"
  proof -
    have "\<bar>of_int (roundEven (x / ?u)) - x / ?u\<bar> * ?u = \<bar>(of_int (roundEven (x / ?u)) - x / ?u) * ?u\<bar>"
      using u by (simp add: abs_mult)
    also have "(of_int (roundEven (x / ?u)) - x / ?u) * ?u = nearest x - x"
      using u by (simp add: nearest_def Let_def left_diff_distrib)
    finally show ?thesis .
  qed
  moreover have "1 / 2 * ?u \<le> x / 2 ^ 53"
  proof -
    have "2 ^ 52 \<le> x / ?u" using binade_scaled [OF assms] by simp
    then have "2 ^ 52 * ?u \<le> x" using u by (simp add: pos_le_divide_eq)
    then show ?thesis by simp
  qed
  ultimately show ?thesis by linarith
qed

lemma toDouble_error: "\<bar>toDouble x - x\<bar> \<le> \<bar>x\<bar> / 2 ^ 53"
proof -
  consider "x = 0" | "0 < x" | "x < 0" by linarith
  then show ?thesis
  proof cases
    case 1
    then show ?thesis by (simp add: toDouble_def)
  next
    case 2
    then show ?thesis using nearest_error [of x] by (simp add: toDouble_def)
  next
    case 3
    then have "\<bar>nearest (- x) - (- x)\<bar> \<le> (- x) / 2 ^ 53" using nearest_error [of "- x"] by simp
    moreover have "\<bar>toDouble x - x\<bar> = \<bar>nearest (- x) - (- x)\<bar>"
      using 3 by (simp add: toDouble_def abs_if)
    ultimately show ?thesis using 3 by simp
  qed
qed

text \<open>Some numbers that are doubles.\<close>

lemma toDouble_zero: "toDouble 0 = 0"
  by (simp add: toDouble_def)

lemma toDouble_one: "toDouble 1 = 1"
  by code_simp

lemma toDouble_half: "toDouble (1 / 2) = 1 / 2"
  by code_simp

lemma toDouble_minus_half: "toDouble (- (1 / 2)) = - (1 / 2)"
  by code_simp

lemma toDouble_hundred: "toDouble 100 = 100"
  by code_simp

section \<open>Properties of the deterministic scorer\<close>

lemma unit_Let:
  assumes "\<And>x. 0 \<le> f x \<and> f x \<le> (1::real)"
  shows "0 \<le> Let (a::real) f \<and> Let a f \<le> 1"
  using assms by simp

lemma calculateSpamScore_range:
  "0 \<le> calculateSpamScore fs \<and> calculateSpamScore fs \<le> 1"
  unfolding calculateSpamScore_def
  by (intro unit_Let) simp

lemma toDouble_unit:
  assumes "0 \<le> x" and "x \<le> 1"
  shows "0 \<le> toDouble x \<and> toDouble x \<le> 1"
  using toDouble_mono [OF assms(1)] toDouble_mono [OF assms(2)]
  by (simp add: toDouble_zero toDouble_one)

text \<open>The steps from a score \<open>s\<close> to the returned confidence \<open>r\<close>, each with its distance
  from the exact value: the difference \<open>a\<close>, its double \<open>c\<close>, the hundredfold \<open>t\<close>, the
  integer \<open>k\<close> that \<open>Math.round\<close> gives, and the quotient.\<close>

lemma confidence_steps:
  assumes s: "0 \<le> s" "s \<le> 1"
  defines "a \<equiv> sub_d s 0.5"
  defines "c \<equiv> mul_d \<bar>a\<bar> 2"
  defines "t \<equiv> mul_d c 100"
  defines "r \<equiv> div_d (Math_round t) 100"
  shows "\<exists>k::int. 0 \<le> k \<and> k \<le> 100 \<and> r = div_d (of_int k) 100
           \<and> 0 \<le> r \<and> r \<le> 1 \<and> \<bar>r - \<bar>s - 0.5\<bar> * 2\<bar> \<le> 1 / 200 + 1 / 2 ^ 51"
proof -
  have a_lo: "- (1 / 2) \<le> a"
    using toDouble_mono [of "- (1 / 2)" "s - 0.5"] s
    by (simp add: a_def sub_d_def toDouble_minus_half)
  have a_hi: "a \<le> 1 / 2"
    using toDouble_mono [of "s - 0.5" "1 / 2"] s
    by (simp add: a_def sub_d_def toDouble_half)
  have a_abs: "\<bar>a\<bar> \<le> 1 / 2" using a_lo a_hi by (simp add: abs_le_iff)
  have "\<bar>a - (s - 0.5)\<bar> \<le> \<bar>s - 0.5\<bar> / 2 ^ 53"
    using toDouble_error [of "s - 0.5"] by (simp add: a_def sub_d_def)
  moreover have "\<bar>s - 0.5\<bar> \<le> 1 / 2" using s by argo
  ultimately have a_err: "\<bar>a - (s - 0.5)\<bar> \<le> 1 / 2 ^ 54"
    by (simp add: field_simps)
  have c_rng: "0 \<le> c \<and> c \<le> 1"
    unfolding c_def mul_d_def using a_abs by (intro toDouble_unit) simp_all
  have "\<bar>c - \<bar>a\<bar> * 2\<bar> \<le> \<bar>\<bar>a\<bar> * 2\<bar> / 2 ^ 53"
    using toDouble_error [of "\<bar>a\<bar> * 2"] by (simp add: c_def mul_d_def)
  then have c_err: "\<bar>c - \<bar>a\<bar> * 2\<bar> \<le> 1 / 2 ^ 53"
    using a_abs by (simp add: field_simps)
  have t_lo: "0 \<le> t"
    using toDouble_mono [of 0 "c * 100"] c_rng by (simp add: t_def mul_d_def toDouble_zero)
  have t_hi: "t \<le> 100"
    using toDouble_mono [of "c * 100" 100] c_rng by (simp add: t_def mul_d_def toDouble_hundred)
  have "\<bar>t - c * 100\<bar> \<le> \<bar>c * 100\<bar> / 2 ^ 53"
    using toDouble_error [of "c * 100"] by (simp add: t_def mul_d_def)
  then have t_err: "\<bar>t - c * 100\<bar> \<le> 100 / 2 ^ 53"
    using c_rng by (simp add: field_simps)
  define k where "k = \<lfloor>t + 1 / 2\<rfloor>"
  have k_lo: "0 \<le> k" using t_lo by (simp add: k_def)
  have k_hi: "k \<le> 100"
  proof -
    have "t + 1 / 2 < 101" using t_hi by simp
    then have "\<lfloor>t + 1 / 2\<rfloor> < 101" by (simp add: floor_less_iff)
    then show ?thesis by (simp add: k_def)
  qed
  have k_err: "\<bar>of_int k - t\<bar> \<le> 1 / 2"
    unfolding k_def by linarith
  have m: "Math_round t = of_int k" by (simp add: Math_round_def k_def)
  have q: "0 \<le> (of_int k :: real) / 100 \<and> (of_int k :: real) / 100 \<le> 1"
    using k_lo k_hi by simp
  have r_rng: "0 \<le> r \<and> r \<le> 1"
    unfolding r_def div_d_def m using q by (intro toDouble_unit) simp_all
  have "\<bar>r - of_int k / 100\<bar> \<le> \<bar>of_int k / 100\<bar> / 2 ^ 53"
    using toDouble_error [of "of_int k / 100"] by (simp add: r_def div_d_def m)
  then have r_err: "\<bar>r - of_int k / 100\<bar> \<le> 1 / 2 ^ 53"
    using q by (simp add: field_simps)
  have chain: "\<bar>x0 - x5\<bar> \<le> 1 / 200 + 4 * e"
    if "\<bar>x0 - x1\<bar> \<le> e" "\<bar>x1 - x2\<bar> \<le> 1 / 200" "\<bar>x2 - x3\<bar> \<le> e"
      "\<bar>x3 - x4\<bar> \<le> e" "\<bar>x4 - x5\<bar> \<le> e"
    for x0 x1 x2 x3 x4 x5 e :: real
    using that by linarith
  have d1: "\<bar>of_int k / 100 - t / 100\<bar> \<le> 1 / 200"
  proof -
    have "\<bar>of_int k / 100 - t / 100\<bar> = \<bar>of_int k - t\<bar> / 100"
      by (simp add: diff_divide_distrib [symmetric])
    then show ?thesis using k_err by simp
  qed
  have d2: "\<bar>t / 100 - c\<bar> \<le> 1 / 2 ^ 53"
  proof -
    have "\<bar>t / 100 - c\<bar> = \<bar>t - c * 100\<bar> / 100"
      by (simp add: field_simps)
    then show ?thesis using t_err by simp
  qed
  have d4: "\<bar>\<bar>a\<bar> * 2 - \<bar>s - 0.5\<bar> * 2\<bar> \<le> 1 / 2 ^ 53"
  proof -
    have "\<bar>\<bar>a\<bar> - \<bar>s - 0.5\<bar>\<bar> \<le> \<bar>a - (s - 0.5)\<bar>" by (rule abs_triangle_ineq3)
    then have "\<bar>\<bar>a\<bar> - \<bar>s - 0.5\<bar>\<bar> \<le> 1 / 2 ^ 54" using a_err by linarith
    moreover have "\<bar>\<bar>a\<bar> * 2 - \<bar>s - 0.5\<bar> * 2\<bar> = \<bar>\<bar>a\<bar> - \<bar>s - 0.5\<bar>\<bar> * 2"
      by (simp add: abs_if)
    ultimately show ?thesis by simp
  qed
  have "\<bar>r - \<bar>s - 0.5\<bar> * 2\<bar> \<le> 1 / 200 + 4 * (1 / 2 ^ 53)"
    using chain [OF r_err d1 d2 c_err d4] .
  also have "\<dots> = 1 / 200 + 1 / 2 ^ 51" by simp
  finally have e: "\<bar>r - \<bar>s - 0.5\<bar> * 2\<bar> \<le> 1 / 200 + 1 / 2 ^ 51" .
  have "r = div_d (of_int k) 100" by (simp add: r_def m)
  then show ?thesis using k_lo k_hi r_rng e by blast
qed

text \<open>
  Claim C4, as amended. For every feature set the scorer answers spam exactly when the
  clamped score, as the double arithmetic computes it, is greater than 0.5, so a computed
  score of exactly 0.5 is ham. The confidence it returns is \<open>|score - 0.5| * 2\<close> rounded to
  two decimals: it is the double of \<open>k / 100\<close> for an integer \<open>k\<close> from 0 to 100, it differs
  from \<open>|score - 0.5| * 2\<close> by at most 0.005 and the rounding errors of the four
  operations (together at most \<open>2^-51\<close>), and it lies between 0 and 1.
\<close>

theorem scorer_threshold_and_confidence:
  "isSpam (classifyFeatures fs) = (calculateSpamScore fs > 0.5)
   \<and> (\<exists>k::int. 0 \<le> k \<and> k \<le> 100 \<and> confidence (classifyFeatures fs) = div_d (of_int k) 100)
   \<and> \<bar>confidence (classifyFeatures fs) - \<bar>calculateSpamScore fs - 0.5\<bar> * 2\<bar> \<le> 1 / 200 + 1 / 2 ^ 51
   \<and> 0 \<le> confidence (classifyFeatures fs) \<and> confidence (classifyFeatures fs) \<le> 1"
proof -
  have c: "confidence (classifyFeatures fs)
      = div_d (Math_round (mul_d (mul_d \<bar>sub_d (calculateSpamScore fs) 0.5\<bar> 2) 100)) 100"
    by (simp add: classifyFeatures_def Let_def)
  have s: "isSpam (classifyFeatures fs) = (calculateSpamScore fs > 0.5)"
    by (simp add: classifyFeatures_def Let_def)
  have r: "0 \<le> calculateSpamScore fs" "calculateSpamScore fs \<le> 1"
    using calculateSpamScore_range [of fs] by simp_all
  show ?thesis
    using confidence_steps [OF r] unfolding c [symmetric] s by blast
qed

text \<open>
  Claim C4 as stated fails in the equality of the confidence. With one spam keyword and
  no other indicator the score is the double of 0.65, which is
  \<open>5854679515581645 / 2^53\<close>; \<open>|score - 0.5| * 2\<close> is then 0.30000000000000004, in doubles
  as in exact arithmetic, and the confidence returned is the double of 0.3.
\<close>

theorem confidence_rounded_counterexample:
  "(let fs = \<lparr>hasURL = False, hasPhoneNumber = False, hasMoneyAmount = False,
          urgencyScore = 0, sentimentScore = 0, spamKeywordCount = 1,
          legitPatternCount = 0, hasOTP = False, hasBankingTerms = False,
          capitalRatio = 0, exclamationCount = 0, questionCount = 0, wordCount = 1\<rparr>
    in calculateSpamScore fs = 5854679515581645 / 9007199254740992
     \<and> \<bar>calculateSpamScore fs - 0.5\<bar> * 2 = 1351079888211149 / 4503599627370496
     \<and> mul_d \<bar>sub_d (calculateSpamScore fs) 0.5\<bar> 2 = 1351079888211149 / 4503599627370496
     \<and> confidence (classifyFeatures fs) = 5404319552844595 / 18014398509481984
     \<and> confidence (classifyFeatures fs) \<noteq> \<bar>calculateSpamScore fs - 0.5\<bar> * 2
     \<and> confidence (classifyFeatures fs) \<noteq> mul_d \<bar>sub_d (calculateSpamScore fs) 0.5\<bar> 2)"
  by code_simp

text \<open>The verdict follows the computed score, not the decimal sum of the weights: four
  spam keywords, one legitimate pattern and an OTP pattern have the weights
  \<open>0.5 + 0.6 - 0.2 - 0.4\<close>, which is 0.5, and the score computed is
  0.5000000000000001; the message is answered spam, with confidence 0.\<close>

lemma scorer_tie_in_doubles:
  "(let fs = \<lparr>hasURL = False, hasPhoneNumber = False, hasMoneyAmount = False,
          urgencyScore = 0, sentimentScore = 0, spamKeywordCount = 4,
          legitPatternCount = 1, hasOTP = True, hasBankingTerms = False,
          capitalRatio = 0, exclamationCount = 0, questionCount = 0, wordCount = 5\<rparr>
    in calculateSpamScore fs = 4503599627370497 / 9007199254740992
     \<and> isSpam (classifyFeatures fs)
     \<and> confidence (classifyFeatures fs) = 0)"
  by code_simp

subsection \<open>Ranges of the features\<close>

lemma count_matches_nonneg: "0 \<le> fst (count_matches ps s)"
  by (induction ps) (auto split: prod.splits)

lemma countSpamKeywords_nonneg: "0 \<le> fst (countSpamKeywords svc text)"
proof -
  have "0 \<le> fst (count_matches (promotional (spamPatterns svc)) text)"
    "0 \<le> fst (count_matches (financialScam (spamPatterns svc)) text)"
    "0 \<le> fst (count_matches (phishing (spamPatterns svc)) text)"
    "0 \<le> fst (count_matches (genericSpam (spamPatterns svc)) text)"
    by (rule count_matches_nonneg)+
  then show ?thesis
    by (auto simp: countSpamKeywords_def Let_def split: prod.splits)
qed

lemma countLegitimatePatterns_nonneg: "0 \<le> fst (countLegitimatePatterns svc text)"
proof -
  have "0 \<le> fst (count_matches (banking (legitimatePatterns svc)) text)"
    "0 \<le> fst (count_matches (otp (legitimatePatterns svc)) text)"
    "0 \<le> fst (count_matches (delivery (legitimatePatterns svc)) text)"
    "0 \<le> fst (count_matches (booking (legitimatePatterns svc)) text)"
    "0 \<le> fst (count_matches (service (legitimatePatterns svc)) text)"
    by (rule count_matches_nonneg)+
  then show ?thesis
    by (auto simp: countLegitimatePatterns_def Let_def split: prod.splits)
qed

lemma urgency_fold_nonneg:
  "0 \<le> a \<Longrightarrow> 0 \<le> fold (\<lambda>word score. if P word then score + (0.1::real) else score) ws a"
  by (induction ws arbitrary: a) auto

lemma calculateUrgencyScore_range:
  "0 \<le> calculateUrgencyScore text \<and> calculateUrgencyScore text \<le> 1"
proof -
  have f: "0 \<le> fold (\<lambda>word score. if includes_str text word then score + (0.1::real) else score)
             urgentWords 0"
    by (rule urgency_fold_nonneg) simp
  have m: "0 \<le> matchCount text (Plus (Lit ''!''))"
    by (simp add: matchCount_def)
  then have "0 \<le> min (of_int (matchCount text (Plus (Lit ''!''))) * 0.05) (0.3::real)"
    by simp
  with f show ?thesis
    by (simp add: calculateUrgencyScore_def Let_def)
qed

lemma calculateCapitalRatio_range:
  "0 \<le> calculateCapitalRatio text \<and> calculateCapitalRatio text \<le> 1"
proof -
  have "filter isUpperAscii text = filter isUpperAscii (filter isLetter text)"
    by (simp add: isLetter_def conj_commute cong: conj_cong)
  then have "length (filter isUpperAscii text) \<le> length (filter isLetter text)"
    by (metis length_filter_le)
  then show ?thesis
    by (simp add: calculateCapitalRatio_def Let_def)
qed

lemma calculateCapitalRatio_no_letters:
  "filter isLetter text = [] \<Longrightarrow> calculateCapitalRatio text = 0"
  by (simp add: calculateCapitalRatio_def)

text \<open>
  Claim C10. For every input string the extraction gives a feature set (no branch of it
  throws) in which the capital ratio and the urgency score lie between 0 and 1, the
  capital ratio is 0 when the text has no letter, and the five counts are not negative.
\<close>

theorem features_in_range:
  "0 \<le> capitalRatio (fst (extractFeatures has svc msg))
   \<and> capitalRatio (fst (extractFeatures has svc msg)) \<le> 1
   \<and> (filter isLetter msg = [] \<longrightarrow> capitalRatio (fst (extractFeatures has svc msg)) = 0)
   \<and> 0 \<le> urgencyScore (fst (extractFeatures has svc msg))
   \<and> urgencyScore (fst (extractFeatures has svc msg)) \<le> 1
   \<and> 0 \<le> exclamationCount (fst (extractFeatures has svc msg))
   \<and> 0 \<le> questionCount (fst (extractFeatures has svc msg))
   \<and> 0 \<le> wordCount (fst (extractFeatures has svc msg))
   \<and> 0 \<le> spamKeywordCount (fst (extractFeatures has svc msg))
   \<and> 0 \<le> legitPatternCount (fst (extractFeatures has svc msg))"
proof -
  obtain nSpam svc1 where a: "countSpamKeywords svc (toLowerCase msg) = (nSpam, svc1)"
    by (cases "countSpamKeywords svc (toLowerCase msg)")
  obtain nLegit svc2 where b: "countLegitimatePatterns svc1 (toLowerCase msg) = (nLegit, svc2)"
    by (cases "countLegitimatePatterns svc1 (toLowerCase msg)")
  obtain otpHit svc3 where c: "detectOTP svc2 (toLowerCase msg) = (otpHit, svc3)"
    by (cases "detectOTP svc2 (toLowerCase msg)")
  obtain bankHit svc4 where d: "detectBankingTerms svc3 (toLowerCase msg) = (bankHit, svc4)"
    by (cases "detectBankingTerms svc3 (toLowerCase msg)")
  have n1: "0 \<le> nSpam" using countSpamKeywords_nonneg [of svc "toLowerCase msg"] a by simp
  have n2: "0 \<le> nLegit" using countLegitimatePatterns_nonneg [of svc1 "toLowerCase msg"] b by simp
  show ?thesis
    using n1 n2 calculateCapitalRatio_range [of msg] calculateUrgencyScore_range [of "toLowerCase msg"]
      calculateCapitalRatio_no_letters [of msg]
    by (simp add: extractFeatures_def Let_def a b c d matchCount_def)
qed

lemma no_letters_123: "filter isLetter ''123'' = []"
  by code_simp

theorem features_in_range_witness:
  "filter isLetter ''123'' = []
   \<and> capitalRatio (fst (extractFeatures (\<lambda>t w. False) new_NLPClassifierService ''123'')) = 0"
  using features_in_range [of "\<lambda>t w. False" new_NLPClassifierService "''123''"] no_letters_123
  by simp

lemma calculateSpamScore_neutral:
  assumes "spamKeywordCount fs = 0" and "urgencyScore fs \<le> 0.5" and "capitalRatio fs \<le> 0.5"
    and "exclamationCount fs \<le> 2" and "\<not> hasURL fs" and "legitPatternCount fs = 0"
    and "\<not> hasOTP fs" and "\<not> hasBankingTerms fs"
  shows "calculateSpamScore fs = 0.5"
  using assms by (simp add: calculateSpamScore_def Let_def)

text \<open>
  Claim C9. When the features of a message fire no indicator (no spam keyword, urgency
  and capital ratio at most 0.5, at most two exclamation marks, no URL, no legitimate
  pattern, no OTP pattern, no banking term), the scorer answers ham with confidence 0 and
  the default reason, which is not empty.
\<close>

theorem scorer_neutral_without_indicators:
  assumes "fs = features (fst (classifyMessage_nlp has svc msg))"
    and "spamKeywordCount fs = 0" and "urgencyScore fs \<le> 0.5" and "capitalRatio fs \<le> 0.5"
    and "exclamationCount fs \<le> 2" and "\<not> hasURL fs" and "legitPatternCount fs = 0"
    and "\<not> hasOTP fs" and "\<not> hasBankingTerms fs"
  shows "isSpam (fst (classifyMessage_nlp has svc msg)) = False
    \<and> confidence (fst (classifyMessage_nlp has svc msg)) = 0
    \<and> reason (fst (classifyMessage_nlp has svc msg)) = ''No spam indicators found''
    \<and> reason (fst (classifyMessage_nlp has svc msg)) \<noteq> []"
proof -
  obtain fs' svc' where e: "extractFeatures has svc msg = (fs', svc')"
    by (cases "extractFeatures has svc msg")
  have r: "fst (classifyMessage_nlp has svc msg) = classifyFeatures fs'"
    by (simp add: classifyMessage_nlp_def e)
  have "fs = fs'" using assms(1) by (simp add: r classifyFeatures_def Let_def)
  then have s: "calculateSpamScore fs' = 0.5"
    using calculateSpamScore_neutral [of fs] assms by simp
  show ?thesis
    using assms \<open>fs = fs'\<close>
    by (simp add: r classifyFeatures_def s generateReason_def Math_round_def
        sub_d_def mul_d_def div_d_def toDouble_zero)
qed

lemma classifyMessage_nlp_hi:
  "fst (classifyMessage_nlp (\<lambda>t w. False) new_NLPClassifierService ''hi'') =
     \<lparr>isSpam = False, confidence = 0, reason = ''No spam indicators found'',
      features = \<lparr>hasURL = False, hasPhoneNumber = False, hasMoneyAmount = False,
          urgencyScore = 0, sentimentScore = 0, spamKeywordCount = 0,
          legitPatternCount = 0, hasOTP = False, hasBankingTerms = False,
          capitalRatio = 0, exclamationCount = 0, questionCount = 0,
          wordCount = 1\<rparr>\<rparr>"
  by code_simp

theorem scorer_neutral_without_indicators_witness:
  "spamKeywordCount (features (fst (classifyMessage_nlp (\<lambda>t w. False) new_NLPClassifierService ''hi''))) = 0
   \<and> urgencyScore (features (fst (classifyMessage_nlp (\<lambda>t w. False) new_NLPClassifierService ''hi''))) \<le> 0.5
   \<and> capitalRatio (features (fst (classifyMessage_nlp (\<lambda>t w. False) new_NLPClassifierService ''hi''))) \<le> 0.5
   \<and> exclamationCount (features (fst (classifyMessage_nlp (\<lambda>t w. False) new_NLPClassifierService ''hi''))) \<le> 2
   \<and> \<not> hasURL (features (fst (classifyMessage_nlp (\<lambda>t w. False) new_NLPClassifierService ''hi'')))
   \<and> legitPatternCount (features (fst (classifyMessage_nlp (\<lambda>t w. False) new_NLPClassifierService ''hi''))) = 0
   \<and> \<not> hasOTP (features (fst (classifyMessage_nlp (\<lambda>t w. False) new_NLPClassifierService ''hi'')))
   \<and> \<not> hasBankingTerms (features (fst (classifyMessage_nlp (\<lambda>t w. False) new_NLPClassifierService ''hi'')))
   \<and> isSpam (fst (classifyMessage_nlp (\<lambda>t w. False) new_NLPClassifierService ''hi'')) = False
   \<and> confidence (fst (classifyMessage_nlp (\<lambda>t w. False) new_NLPClassifierService ''hi'')) = 0
   \<and> reason (fst (classifyMessage_nlp (\<lambda>t w. False) new_NLPClassifierService ''hi''))
       = ''No spam indicators found''"
proof -
  let ?fs = "features (fst (classifyMessage_nlp (\<lambda>t w. False) new_NLPClassifierService ''hi''))"
  have h: "spamKeywordCount ?fs = 0" "urgencyScore ?fs \<le> 0.5" "capitalRatio ?fs \<le> 0.5"
    "exclamationCount ?fs \<le> 2" "\<not> hasURL ?fs" "legitPatternCount ?fs = 0"
    "\<not> hasOTP ?fs" "\<not> hasBankingTerms ?fs"
    by (simp_all add: classifyMessage_nlp_hi)
  show ?thesis
    using h scorer_neutral_without_indicators [OF refl h] by simp
qed

subsection \<open>The pattern objects between calls\<close>

lemma string_match_reset: "string_match s (resetRegExp p) = string_match s p"
  by (simp add: string_match_def resetRegExp_def)

lemma string_match_snd: "snd (string_match s p) = resetRegExp p"
  by (simp add: string_match_def resetRegExp_def)

lemma count_matches_reset: "count_matches (map resetRegExp ps) s = count_matches ps s"
  by (induction ps) (simp_all add: string_match_reset)

lemma count_matches_snd: "snd (count_matches ps s) = map resetRegExp ps"
proof (induction ps)
  case Nil
  show ?case by simp
next
  case (Cons p ps)
  then show ?case
    using string_match_snd [of s p] by (auto split: prod.splits)
qed

lemma regexp_test_reset: "resetRegExp (snd (regexp_test p s)) = resetRegExp p"
  by (simp add: regexp_test_def resetRegExp_def split: option.splits prod.splits)

lemma some_test_reset: "map resetRegExp (snd (some_test ps s)) = map resetRegExp ps"
proof (induction ps)
  case Nil
  show ?case by simp
next
  case (Cons p ps)
  then show ?case
    using regexp_test_reset [of p s] by (auto split: prod.splits bool.splits)
qed

lemma resetRegExp_idem: "resetRegExp (resetRegExp p) = resetRegExp p"
  by (simp add: resetRegExp_def)

lemma resetService_idem: "resetService (resetService svc) = resetService svc"
  by (simp add: resetService_def resetRegExp_idem)

text \<open>After the two counting loops every pattern object has \<open>lastIndex = 0\<close>, and the
  counts do not depend on the \<open>lastIndex\<close> the objects had before.\<close>

lemma counting_resets:
  assumes "countSpamKeywords svc tx = (nSpam, svc1)"
    and "countLegitimatePatterns svc1 tx = (nLegit, svc2)"
  shows "svc2 = resetService svc"
proof -
  have 1: "svc1 = svc\<lparr>spamPatterns :=
      \<lparr>promotional = map resetRegExp (promotional (spamPatterns svc)),
       financialScam = map resetRegExp (financialScam (spamPatterns svc)),
       phishing = map resetRegExp (phishing (spamPatterns svc)),
       genericSpam = map resetRegExp (genericSpam (spamPatterns svc))\<rparr>\<rparr>"
    using assms(1)
      count_matches_snd [of "promotional (spamPatterns svc)" tx]
      count_matches_snd [of "financialScam (spamPatterns svc)" tx]
      count_matches_snd [of "phishing (spamPatterns svc)" tx]
      count_matches_snd [of "genericSpam (spamPatterns svc)" tx]
    by (auto simp: countSpamKeywords_def Let_def split: prod.splits)
  have 2: "svc2 = svc1\<lparr>legitimatePatterns :=
      \<lparr>banking = map resetRegExp (banking (legitimatePatterns svc1)),
       otp = map resetRegExp (otp (legitimatePatterns svc1)),
       delivery = map resetRegExp (delivery (legitimatePatterns svc1)),
       booking = map resetRegExp (booking (legitimatePatterns svc1)),
       service = map resetRegExp (service (legitimatePatterns svc1))\<rparr>\<rparr>"
    using assms(2)
      count_matches_snd [of "banking (legitimatePatterns svc1)" tx]
      count_matches_snd [of "otp (legitimatePatterns svc1)" tx]
      count_matches_snd [of "delivery (legitimatePatterns svc1)" tx]
      count_matches_snd [of "booking (legitimatePatterns svc1)" tx]
      count_matches_snd [of "service (legitimatePatterns svc1)" tx]
    by (auto simp: countLegitimatePatterns_def Let_def split: prod.splits)
  show ?thesis
    by (simp add: 1 2 resetService_def)
qed

lemma countSpamKeywords_reset:
  "fst (countSpamKeywords (resetService svc) tx) = fst (countSpamKeywords svc tx)"
  by (simp add: countSpamKeywords_def resetService_def Let_def count_matches_reset split: prod.splits)

lemma countLegitimatePatterns_reset:
  "fst (countLegitimatePatterns (resetService svc) tx) = fst (countLegitimatePatterns svc tx)"
  by (simp add: countLegitimatePatterns_def resetService_def Let_def count_matches_reset split: prod.splits)

lemma countSpamKeywords_legit:
  "legitimatePatterns (snd (countSpamKeywords svc tx)) = legitimatePatterns svc"
  by (simp add: countSpamKeywords_def Let_def split: prod.splits)

text \<open>The part of \<open>extractFeatures\<close> that touches the service, as a function of the reset
  service alone.\<close>

lemma extractFeatures_reset:
  "extractFeatures has (resetService svc) msg = extractFeatures has svc msg"
proof -
  let ?t = "toLowerCase msg"
  obtain n1 s1 where a: "countSpamKeywords svc ?t = (n1, s1)"
    by (cases "countSpamKeywords svc ?t")
  obtain m1 s2 where b: "countLegitimatePatterns s1 ?t = (m1, s2)"
    by (cases "countLegitimatePatterns s1 ?t")
  obtain n1' s1' where a': "countSpamKeywords (resetService svc) ?t = (n1', s1')"
    by (cases "countSpamKeywords (resetService svc) ?t")
  obtain m1' s2' where b': "countLegitimatePatterns s1' ?t = (m1', s2')"
    by (cases "countLegitimatePatterns s1' ?t")
  have e2: "s2 = resetService svc" using counting_resets [OF a b] .
  have e2': "s2' = resetService svc"
    using counting_resets [OF a' b'] by (simp add: resetService_idem)
  have en: "n1' = n1" using countSpamKeywords_reset [of svc ?t] a a' by simp
  have l1: "legitimatePatterns s1 = legitimatePatterns svc"
    using countSpamKeywords_legit [of svc ?t] a by simp
  have l1': "legitimatePatterns s1' = legitimatePatterns (resetService svc)"
    using countSpamKeywords_legit [of "resetService svc" ?t] a' by simp
  have c1: "fst (countLegitimatePatterns s1 ?t) = fst (countLegitimatePatterns svc ?t)"
    by (simp add: countLegitimatePatterns_def l1 Let_def split: prod.splits)
  have c2: "fst (countLegitimatePatterns s1' ?t) = fst (countLegitimatePatterns (resetService svc) ?t)"
    by (simp add: countLegitimatePatterns_def l1' Let_def split: prod.splits)
  have em: "m1' = m1"
    using c1 c2 countLegitimatePatterns_reset [of svc ?t] b b' by simp
  show ?thesis
    by (simp add: extractFeatures_def a b a' b' e2 e2' en em)
qed

lemma detectOTP_reset: "resetService (snd (detectOTP svc tx)) = resetService svc"
  using some_test_reset [of "otp (legitimatePatterns svc)" tx]
  by (cases "some_test (otp (legitimatePatterns svc)) tx") (simp add: detectOTP_def resetService_def)

lemma detectBankingTerms_reset: "resetService (snd (detectBankingTerms svc tx)) = resetService svc"
  using some_test_reset [of "banking (legitimatePatterns svc)" tx]
  by (cases "some_test (banking (legitimatePatterns svc)) tx")
    (simp add: detectBankingTerms_def resetService_def)

lemma extractFeatures_keeps_patterns:
  "resetService (snd (extractFeatures has svc msg)) = resetService svc"
proof -
  let ?t = "toLowerCase msg"
  obtain n1 s1 where a: "countSpamKeywords svc ?t = (n1, s1)"
    by (cases "countSpamKeywords svc ?t")
  obtain m1 s2 where b: "countLegitimatePatterns s1 ?t = (m1, s2)"
    by (cases "countLegitimatePatterns s1 ?t")
  obtain oh s3 where c: "detectOTP s2 ?t = (oh, s3)"
    by (cases "detectOTP s2 ?t")
  obtain k s4 where d: "detectBankingTerms s3 ?t = (k, s4)"
    by (cases "detectBankingTerms s3 ?t")
  have "resetService s4 = resetService s3" using detectBankingTerms_reset [of s3 ?t] d by simp
  also have "\<dots> = resetService s2" using detectOTP_reset [of s2 ?t] c by simp
  also have "\<dots> = resetService svc" using counting_resets [OF a b] by (simp add: resetService_idem)
  finally show ?thesis by (simp add: extractFeatures_def Let_def a b c d)
qed

lemma classifyMessage_nlp_reset:
  "classifyMessage_nlp has (resetService svc) msg = classifyMessage_nlp has svc msg"
  by (simp add: classifyMessage_nlp_def extractFeatures_reset)

lemma classifyMessage_nlp_keeps_patterns:
  "resetService (snd (classifyMessage_nlp has svc msg)) = resetService svc"
  using extractFeatures_keeps_patterns [of has svc msg]
  by (cases "extractFeatures has svc msg") (simp add: classifyMessage_nlp_def)

lemma classifyAll_keeps_patterns:
  "resetService (classifyAll has svc ms) = resetService svc"
  by (induction ms arbitrary: svc) (simp_all add: classifyMessage_nlp_keeps_patterns)

text \<open>
  Claim C5, as amended. A call of \<open>classifyMessage\<close> on a message returns the same
  result (verdict, confidence, reason and features) whatever messages the service has
  classified before: the result does not depend on the \<open>lastIndex\<close> values the earlier
  calls left behind, because the counting loops reset them before \<open>detectOTP\<close> and
  \<open>detectBankingTerms\<close> test the shared pattern objects. The method is synchronous, so
  calls follow one another; the answer of the compromise library is a function of the
  text and the word.
\<close>

theorem scorer_deterministic:
  "fst (classifyMessage_nlp has (classifyAll has svc others) msg) = fst (classifyMessage_nlp has svc msg)"
proof -
  have "classifyMessage_nlp has (classifyAll has svc others) msg
        = classifyMessage_nlp has (resetService (classifyAll has svc others)) msg"
    by (simp add: classifyMessage_nlp_reset)
  also have "\<dots> = classifyMessage_nlp has (resetService svc) msg"
    by (simp add: classifyAll_keeps_patterns)
  also have "\<dots> = classifyMessage_nlp has svc msg"
    by (rule classifyMessage_nlp_reset)
  finally show ?thesis by simp
qed

text \<open>
  Claim C5 as stated fails in its last part: the shared pattern objects do carry state
  between calls. Called twice on the same text, \<open>detectOTP\<close> answers true and then false;
  and after \<open>classifyMessage\<close> the first OTP pattern of the service has \<open>lastIndex = 3\<close>
  where the new service has 0.
\<close>

theorem regex_state_counterexample:
  "fst (detectOTP new_NLPClassifierService ''otp'')
   \<and> \<not> fst (detectOTP (snd (detectOTP new_NLPClassifierService ''otp'')) ''otp'')
   \<and> map lastIndex (otp (legitimatePatterns
         (snd (classifyMessage_nlp (\<lambda>t w. False) new_NLPClassifierService ''otp'')))) = [3, 0, 0, 0]
   \<and> map lastIndex (otp (legitimatePatterns new_NLPClassifierService)) = [0, 0, 0, 0]"
  by code_simp

section \<open>Properties of the classification service\<close>


lemma calculateKeywordSpamScore_range:
  "0 \<le> calculateKeywordSpamScore tx keywords \<and> calculateKeywordSpamScore tx keywords \<le> 1"
  by (simp add: calculateKeywordSpamScore_def Let_def)


lemma classifyWithKeywords_reason: "reason (classifyWithKeywords tx) \<noteq> []"
  by (simp add: classifyWithKeywords_def Let_def)

lemma classifyWithKeywords_confidence:
  "0 \<le> confidence (classifyWithKeywords tx) \<and> confidence (classifyWithKeywords tx) \<le> 1"
  using calculateKeywordSpamScore_range [of tx SPAM_KEYWORDS]
  by (simp add: classifyWithKeywords_def Let_def)

lemma clampUnit_range: "0 \<le> clampUnit x \<and> clampUnit x \<le> 1"
  by (cases x) (simp_all add: clampUnit_def)

lemma parseResponse_confidence:
  "parseResponse env t = Inr r \<Longrightarrow> 0 \<le> confidence r \<and> confidence r \<le> 1"
  using clampUnit_range
  by (auto simp: parseResponse_def split: option.splits sum.splits json.splits)

lemma classifyWithAI_confidence:
  "fst (classifyWithAI env s tx) = Inr r \<Longrightarrow> 0 \<le> confidence r \<and> confidence r \<le> 1"
  using parseResponse_confidence
  by (auto simp: classifyWithAI_def Let_def split: if_splits ai_response.splits sum.splits)

text \<open>
  Claim C1, as amended. For every text, every state of the service and every behaviour of
  the model and of \<open>JSON.parse\<close>, \<open>classifyMessage\<close> returns a result and throws nothing,
  and the confidence of the result lies between 0 and 1. The reason is not empty unless
  the result is the answer of the model itself: the code checks that this reason is a
  string, not that it has characters.
\<close>

theorem classifyMessage_returns:
  "\<exists>r s'. classifyMessage env s tx = (Inr r, s') \<and> 0 \<le> confidence r \<and> confidence r \<le> 1
     \<and> ((isInitialized s \<and> fst (classifyWithAI env s tx) = Inr r) \<or> reason r \<noteq> [])"
proof (cases "isInitialized s")
  case False
  then show ?thesis
    using classifyWithKeywords_confidence [of tx] classifyWithKeywords_reason [of tx]
    by (simp add: classifyMessage_def)
next
  case True
  obtain res s1 where a: "classifyWithAI env s tx = (res, s1)"
    by (cases "classifyWithAI env s tx")
  show ?thesis
  proof (cases res)
    case (Inl e)
    then show ?thesis
      using True a classifyWithKeywords_confidence [of tx] classifyWithKeywords_reason [of tx]
      by (simp add: classifyMessage_def)
  next
    case (Inr r)
    then show ?thesis
      using True a classifyWithAI_confidence [of env s tx r]
      by (simp add: classifyMessage_def)
  qed
qed

theorem classifyMessage_returns_witness:
  "\<not> isInitialized new_ClassificationService
   \<and> reason (classifyWithKeywords ''hi'') \<noteq> []
   \<and> (\<exists>r s'. classifyMessage
          \<lparr>generateContent = (\<lambda>n p. Rejected), JSON_parse = (\<lambda>t. None)\<rparr>
          new_ClassificationService ''hi'' = (Inr r, s')
        \<and> 0 \<le> confidence r \<and> confidence r \<le> 1 \<and> reason r \<noteq> [])"
proof -
  have n: "\<not> isInitialized new_ClassificationService"
    by (simp add: isInitialized_def new_ClassificationService_def)
  have k: "reason (classifyWithKeywords ''hi'') \<noteq> []"
    by (rule classifyWithKeywords_reason)
  show ?thesis
    using n k classifyMessage_returns
      [of "\<lparr>generateContent = (\<lambda>n p. Rejected), JSON_parse = (\<lambda>t. None)\<rparr>"
          new_ClassificationService "''hi''"]
    by auto
qed

text \<open>
  Claim C1 as stated fails where the model answers with well-formed JSON whose reason is
  the empty string: the answer is returned as it is.
\<close>

theorem classifyMessage_empty_reason_counterexample:
  "fst (classifyMessage
        \<lparr>generateContent = (\<lambda>n p. ResponseText ''{\"isSpam\":true,\"confidence\":0.9,\"reason\":\"\"}''),
         JSON_parse = (\<lambda>t. if t = ''{\"isSpam\":true,\"confidence\":0.9,\"reason\":\"\"}''
            then Some (JObject [(''isSpam'', JBool True), (''confidence'', JNumber (Finite 0.9)),
                                (''reason'', JString [])])
            else None)\<rparr>
        \<lparr>genAI = True, model = True, apiKey = Some ''key'', rateLimitMs = 2000, lastCallTime = 0,
         clock = 5000, requests = []\<rparr>
        ''hi'')
   = Inr \<lparr>isSpam = True, confidence = 0.9, reason = []\<rparr>"
  by code_simp

lemma waitForRateLimit_requests: "requests (waitForRateLimit s) = requests s"
  by (simp add: waitForRateLimit_def Let_def)

lemma classifyWithAI_requests:
  "model s \<Longrightarrow>
   requests (snd (classifyWithAI env s tx)) =
     requests s @ [buildPrompt (truncateText (preprocessText tx) 500)]"
  by (simp add: classifyWithAI_def Let_def waitForRateLimit_requests
      split: ai_response.splits sum.splits)

lemma classifyWithAI_success:
  assumes "model s"
    and "generateContent env (length (requests s))
           (buildPrompt (truncateText (preprocessText tx) 500)) = ResponseText t"
    and "parseResponse env t = Inr r"
  shows "fst (classifyWithAI env s tx) = Inr r"
  using assms by (simp add: classifyWithAI_def Let_def waitForRateLimit_requests)

lemma classifyMessage_requests:
  "requests (snd (classifyMessage env s tx)) =
     (if isInitialized s
      then requests s @ [buildPrompt (truncateText (preprocessText tx) 500)]
      else requests s)"
proof (cases "isInitialized s")
  case False
  then show ?thesis by (simp add: classifyMessage_def)
next
  case True
  then have m: "model s" by (simp add: isInitialized_def)
  obtain res s1 where a: "classifyWithAI env s tx = (res, s1)"
    by (cases "classifyWithAI env s tx")
  have "requests s1 = requests s @ [buildPrompt (truncateText (preprocessText tx) 500)]"
    using classifyWithAI_requests [OF m, of env tx] a by simp
  then show ?thesis using True a by (cases res) (simp_all add: classifyMessage_def)
qed

lemma classifyWithAI_rejected:
  assumes "model s"
    and "generateContent env (length (requests s))
           (buildPrompt (truncateText (preprocessText tx) 500)) = Rejected"
  shows "\<exists>e. fst (classifyWithAI env s tx) = Inl e"
  using assms by (simp add: classifyWithAI_def Let_def waitForRateLimit_requests)

lemma classifyWithAI_malformed:
  assumes "model s"
    and "generateContent env (length (requests s))
           (buildPrompt (truncateText (preprocessText tx) 500)) = ResponseText t"
    and "parseResponse env t = Inl e"
  shows "\<exists>e'. fst (classifyWithAI env s tx) = Inl e'"
  using assms by (simp add: classifyWithAI_def Let_def waitForRateLimit_requests)

lemma classifyMessage_fallback:
  assumes "isInitialized s" and "fst (classifyWithAI env s tx) = Inl e"
  shows "fst (classifyMessage env s tx) = Inr (classifyWithKeywords tx)"
  using assms by (cases "classifyWithAI env s tx") (simp add: classifyMessage_def)

text \<open>
  Claim C2, as amended. \<open>classifyMessage\<close> does not run the deterministic scorer and has
  no trust threshold. When the service is initialized it sends exactly one prompt to the
  model, whatever the text; when the model answers with a well-formed result, that result
  is returned; when the request is rejected, or the answer is not a well-formed result,
  the result is that of the keyword fallback. When the service is not initialized no
  prompt is sent and the result is that of the keyword fallback.
\<close>

theorem classifyMessage_ai_first:
  "(isInitialized s \<longrightarrow>
      requests (snd (classifyMessage env s tx)) =
        requests s @ [buildPrompt (truncateText (preprocessText tx) 500)]
      \<and> (\<forall>t r. generateContent env (length (requests s))
                  (buildPrompt (truncateText (preprocessText tx) 500)) = ResponseText t
                \<and> parseResponse env t = Inr r
             \<longrightarrow> fst (classifyMessage env s tx) = Inr r)
      \<and> (generateContent env (length (requests s))
                  (buildPrompt (truncateText (preprocessText tx) 500)) = Rejected
             \<longrightarrow> fst (classifyMessage env s tx) = Inr (classifyWithKeywords tx))
      \<and> (\<forall>t e. generateContent env (length (requests s))
                  (buildPrompt (truncateText (preprocessText tx) 500)) = ResponseText t
                \<and> parseResponse env t = Inl e
             \<longrightarrow> fst (classifyMessage env s tx) = Inr (classifyWithKeywords tx)))
   \<and> (\<not> isInitialized s \<longrightarrow>
      requests (snd (classifyMessage env s tx)) = requests s
      \<and> fst (classifyMessage env s tx) = Inr (classifyWithKeywords tx))"
proof (cases "isInitialized s")
  case False
  then show ?thesis by (simp add: classifyMessage_def)
next
  case True
  then have m: "model s" by (simp add: isInitialized_def)
  have 1: "requests (snd (classifyMessage env s tx)) =
        requests s @ [buildPrompt (truncateText (preprocessText tx) 500)]"
    using True by (simp add: classifyMessage_requests)
  have 2: "fst (classifyMessage env s tx) = Inr r"
    if "generateContent env (length (requests s))
          (buildPrompt (truncateText (preprocessText tx) 500)) = ResponseText t"
      and "parseResponse env t = Inr r" for t r
  proof -
    have "fst (classifyWithAI env s tx) = Inr r"
      using classifyWithAI_success [OF m that] .
    then show ?thesis
      using True by (cases "classifyWithAI env s tx") (simp add: classifyMessage_def)
  qed
  have 3: "fst (classifyMessage env s tx) = Inr (classifyWithKeywords tx)"
    if "generateContent env (length (requests s))
          (buildPrompt (truncateText (preprocessText tx) 500)) = Rejected"
    using classifyWithAI_rejected [OF m that] classifyMessage_fallback [OF True] by blast
  have 4: "fst (classifyMessage env s tx) = Inr (classifyWithKeywords tx)"
    if "generateContent env (length (requests s))
          (buildPrompt (truncateText (preprocessText tx) 500)) = ResponseText t"
      and "parseResponse env t = Inl e" for t e
    using classifyWithAI_malformed [OF m that] classifyMessage_fallback [OF True] by blast
  show ?thesis using True 1 2 3 4 by blast
qed

text \<open>
  Claim C2 as stated fails: on the text \<open>otp\<close> the deterministic scorer answers ham with
  confidence 1, the highest there is, so below no trust threshold; the initialized
  service still sends its prompt to the model and returns the model's verdict, spam.
\<close>

theorem classifyMessage_no_trust_gate_counterexample:
  "confidence (fst (classifyMessage_nlp (\<lambda>t w. False) new_NLPClassifierService ''otp'')) = 1
   \<and> isSpam (fst (classifyMessage_nlp (\<lambda>t w. False) new_NLPClassifierService ''otp'')) = False
   \<and> requests (snd (classifyMessage
        \<lparr>generateContent = (\<lambda>n p. ResponseText ''{\"isSpam\":true,\"confidence\":0.9,\"reason\":\"scam\"}''),
         JSON_parse = (\<lambda>t. if t = ''{\"isSpam\":true,\"confidence\":0.9,\"reason\":\"scam\"}''
            then Some (JObject [(''isSpam'', JBool True), (''confidence'', JNumber (Finite 0.9)),
                                (''reason'', JString ''scam'')])
            else None)\<rparr>
        \<lparr>genAI = True, model = True, apiKey = Some ''key'', rateLimitMs = 2000, lastCallTime = 0,
         clock = 5000, requests = []\<rparr>
        ''otp'')) = [buildPrompt ''otp'']
   \<and> fst (classifyMessage
        \<lparr>generateContent = (\<lambda>n p. ResponseText ''{\"isSpam\":true,\"confidence\":0.9,\"reason\":\"scam\"}''),
         JSON_parse = (\<lambda>t. if t = ''{\"isSpam\":true,\"confidence\":0.9,\"reason\":\"scam\"}''
            then Some (JObject [(''isSpam'', JBool True), (''confidence'', JNumber (Finite 0.9)),
                                (''reason'', JString ''scam'')])
            else None)\<rparr>
        \<lparr>genAI = True, model = True, apiKey = Some ''key'', rateLimitMs = 2000, lastCallTime = 0,
         clock = 5000, requests = []\<rparr>
        ''otp'')
     = Inr \<lparr>isSpam = True, confidence = 0.9, reason = ''scam''\<rparr>"
  by code_simp

lemma parseResponse_example:
  "parseResponse
     \<lparr>generateContent = (\<lambda>n p. ResponseText ''{\"isSpam\":true,\"confidence\":0.9,\"reason\":\"scam\"}''),
      JSON_parse = (\<lambda>t. if t = ''{\"isSpam\":true,\"confidence\":0.9,\"reason\":\"scam\"}''
         then Some (JObject [(''isSpam'', JBool True), (''confidence'', JNumber (Finite 0.9)),
                             (''reason'', JString ''scam'')])
         else None)\<rparr>
     ''{\"isSpam\":true,\"confidence\":0.9,\"reason\":\"scam\"}''
   = Inr \<lparr>isSpam = True, confidence = 0.9, reason = ''scam''\<rparr>"
  by code_simp

lemma parseResponse_no_json:
  "parseResponse \<lparr>generateContent = (\<lambda>n p. ResponseText ''Sorry''), JSON_parse = (\<lambda>t. None)\<rparr> ''Sorry''
   = Inl (Thrown ''No JSON found in response'')"
  by code_simp

theorem classifyMessage_ai_first_witness:
  "isInitialized \<lparr>genAI = True, model = True, apiKey = Some ''key'', rateLimitMs = 2000,
       lastCallTime = 0, clock = 5000, requests = []\<rparr>
   \<and> fst (classifyMessage
        \<lparr>generateContent = (\<lambda>n p. ResponseText ''{\"isSpam\":true,\"confidence\":0.9,\"reason\":\"scam\"}''),
         JSON_parse = (\<lambda>t. if t = ''{\"isSpam\":true,\"confidence\":0.9,\"reason\":\"scam\"}''
            then Some (JObject [(''isSpam'', JBool True), (''confidence'', JNumber (Finite 0.9)),
                                (''reason'', JString ''scam'')])
            else None)\<rparr>
        \<lparr>genAI = True, model = True, apiKey = Some ''key'', rateLimitMs = 2000, lastCallTime = 0,
         clock = 5000, requests = []\<rparr>
        ''otp'')
     = Inr \<lparr>isSpam = True, confidence = 0.9, reason = ''scam''\<rparr>
   \<and> fst (classifyMessage
        \<lparr>generateContent = (\<lambda>n p. Rejected), JSON_parse = (\<lambda>t. None)\<rparr>
        \<lparr>genAI = True, model = True, apiKey = Some ''key'', rateLimitMs = 2000, lastCallTime = 0,
         clock = 5000, requests = []\<rparr>
        ''otp'') = Inr (classifyWithKeywords ''otp'')
   \<and> fst (classifyMessage
        \<lparr>generateContent = (\<lambda>n p. ResponseText ''Sorry''), JSON_parse = (\<lambda>t. None)\<rparr>
        \<lparr>genAI = True, model = True, apiKey = Some ''key'', rateLimitMs = 2000, lastCallTime = 0,
         clock = 5000, requests = []\<rparr>
        ''otp'') = Inr (classifyWithKeywords ''otp'')
   \<and> \<not> isInitialized new_ClassificationService
   \<and> requests (snd (classifyMessage
        \<lparr>generateContent = (\<lambda>n p. Rejected), JSON_parse = (\<lambda>t. None)\<rparr>
        new_ClassificationService ''otp'')) = requests new_ClassificationService
   \<and> fst (classifyMessage
        \<lparr>generateContent = (\<lambda>n p. Rejected), JSON_parse = (\<lambda>t. None)\<rparr>
        new_ClassificationService ''otp'') = Inr (classifyWithKeywords ''otp'')"
proof -
  let ?env = "\<lparr>generateContent = (\<lambda>n p. ResponseText ''{\"isSpam\":true,\"confidence\":0.9,\"reason\":\"scam\"}''),
         JSON_parse = (\<lambda>t. if t = ''{\"isSpam\":true,\"confidence\":0.9,\"reason\":\"scam\"}''
            then Some (JObject [(''isSpam'', JBool True), (''confidence'', JNumber (Finite 0.9)),
                                (''reason'', JString ''scam'')])
            else None)\<rparr>"
  let ?rej = "\<lparr>generateContent = (\<lambda>n p. Rejected), JSON_parse = (\<lambda>t. None)\<rparr>"
  let ?bad = "\<lparr>generateContent = (\<lambda>n p. ResponseText ''Sorry''), JSON_parse = (\<lambda>t. None)\<rparr>"
  let ?s = "\<lparr>genAI = True, model = True, apiKey = Some ''key'', rateLimitMs = 2000,
       lastCallTime = 0, clock = 5000, requests = []\<rparr>"
  have i: "isInitialized ?s"
    by (simp add: isInitialized_def)
  have g: "generateContent ?env (length (requests ?s))
        (buildPrompt (truncateText (preprocessText ''otp'') 500))
      = ResponseText ''{\"isSpam\":true,\"confidence\":0.9,\"reason\":\"scam\"}''"
    by simp
  have 1: "fst (classifyMessage ?env ?s ''otp'') = Inr \<lparr>isSpam = True, confidence = 0.9, reason = ''scam''\<rparr>"
    using classifyMessage_ai_first [of ?s ?env "''otp''"] i g parseResponse_example by blast
  have gr: "generateContent ?rej (length (requests ?s))
        (buildPrompt (truncateText (preprocessText ''otp'') 500)) = Rejected"
    by simp
  have 3: "fst (classifyMessage ?rej ?s ''otp'') = Inr (classifyWithKeywords ''otp'')"
    using classifyMessage_ai_first [of ?s ?rej "''otp''"] i gr by blast
  have gb: "generateContent ?bad (length (requests ?s))
        (buildPrompt (truncateText (preprocessText ''otp'') 500)) = ResponseText ''Sorry''"
    by simp
  have 4: "fst (classifyMessage ?bad ?s ''otp'') = Inr (classifyWithKeywords ''otp'')"
    using classifyMessage_ai_first [of ?s ?bad "''otp''"] i gb parseResponse_no_json by blast
  have n: "\<not> isInitialized new_ClassificationService"
    by (simp add: isInitialized_def new_ClassificationService_def)
  have 2: "requests (snd (classifyMessage ?rej new_ClassificationService ''otp''))
       = requests new_ClassificationService
     \<and> fst (classifyMessage ?rej new_ClassificationService ''otp'')
       = Inr (classifyWithKeywords ''otp'')"
    using classifyMessage_ai_first [of new_ClassificationService ?rej "''otp''"] n
    by blast
  show ?thesis using i 1 3 4 n 2 by blast
qed
section \<open>Properties of the notification queue\<close>

lemma sendSpamNotification_returns:
  "\<exists>b s'. sendSpamNotification env s m = (Inr b, s')"
  by (auto simp: sendSpamNotification_def split: prod.splits sum.splits)

lemma processItems_failed:
  "failed (fst (processItems env items (c, s))) = failed c"
proof (induction items arbitrary: c s)
  case Nil
  show ?case by simp
next
  case (Cons item items)
  obtain b s' where r: "sendSpamNotification env s (message item) = (Inr b, s')"
    using sendSpamNotification_returns by blast
  show ?case using Cons.IH [of "c\<lparr>sent := sent c + 1\<rparr>" s'] by (simp add: r)
qed

text \<open>Whatever the sends do, a drain reports no failure: the \<open>catch\<close> block that
  counts one is never entered.\<close>

lemma processQueue_reports_no_failure: "failed (fst (processQueue env s)) = 0"
proof (cases "\<not> isInitialized_tg s \<or> \<not> isEnabled s \<or> isProcessing s")
  case True
  then show ?thesis by (auto simp: processQueue_def)
next
  case False
  obtain c s3 where p: "processItems env (queue s)
      (\<lparr>sent = 0, failed = 0\<rparr>, s\<lparr>isProcessing := True, queue := []\<rparr>) = (c, s3)"
    by (cases "processItems env (queue s)
      (\<lparr>sent = 0, failed = 0\<rparr>, s\<lparr>isProcessing := True, queue := []\<rparr>)")
  have "failed c = 0"
    using processItems_failed [of env "queue s" "\<lparr>sent = 0, failed = 0\<rparr>"
        "s\<lparr>isProcessing := True, queue := []\<rparr>"] p
    by simp
  then show ?thesis
    using False p by (simp add: processQueue_def Let_def)
qed

text \<open>
  Claim C7. When \<open>processQueue\<close> is called while a drain is in progress (the
  \<open>isProcessing\<close> flag is set), it returns \<open>sent = 0\<close> and \<open>failed = 0\<close> and the service,
  its queue included, is exactly as it was.
\<close>

theorem processQueue_not_reentrant:
  assumes "isProcessing s"
  shows "processQueue env s = (\<lparr>sent = 0, failed = 0\<rparr>, s)"
  using assms by (simp add: processQueue_def)

theorem processQueue_not_reentrant_witness:
  "isProcessing \<lparr>config = Some \<lparr>botToken = ''t'', chatId = ''c'', enabled = True\<rparr>, client = True,
       queue = [\<lparr>message = \<lparr>id_m = ''1'', sender = ''s'', body = ''win a prize'', timestamp = 0,
          isSpam_m = Some True, confidence_m = Some 1, reason_m = Some ''r'', classifiedAt_m = None\<rparr>, retries = 0\<rparr>],
       isProcessing = True, posted = []\<rparr>
   \<and> processQueue \<lparr>post = (\<lambda>n t. PostResponse True), formatSpamMessage = body\<rparr>
       \<lparr>config = Some \<lparr>botToken = ''t'', chatId = ''c'', enabled = True\<rparr>, client = True,
       queue = [\<lparr>message = \<lparr>id_m = ''1'', sender = ''s'', body = ''win a prize'', timestamp = 0,
          isSpam_m = Some True, confidence_m = Some 1, reason_m = Some ''r'', classifiedAt_m = None\<rparr>, retries = 0\<rparr>],
       isProcessing = True, posted = []\<rparr>
     = (\<lparr>sent = 0, failed = 0\<rparr>,
       \<lparr>config = Some \<lparr>botToken = ''t'', chatId = ''c'', enabled = True\<rparr>, client = True,
       queue = [\<lparr>message = \<lparr>id_m = ''1'', sender = ''s'', body = ''win a prize'', timestamp = 0,
          isSpam_m = Some True, confidence_m = Some 1, reason_m = Some ''r'', classifiedAt_m = None\<rparr>, retries = 0\<rparr>],
       isProcessing = True, posted = []\<rparr>)"
  using processQueue_not_reentrant [of "\<lparr>config = Some \<lparr>botToken = ''t'', chatId = ''c'', enabled = True\<rparr>, client = True,
       queue = [\<lparr>message = \<lparr>id_m = ''1'', sender = ''s'', body = ''win a prize'', timestamp = 0,
          isSpam_m = Some True, confidence_m = Some 1, reason_m = Some ''r'', classifiedAt_m = None\<rparr>, retries = 0\<rparr>],
       isProcessing = True, posted = []\<rparr>" "\<lparr>post = (\<lambda>n t. PostResponse True), formatSpamMessage = body\<rparr>"]
  by simp

text \<open>
  Claim C3. The claim asks that an entry whose send fails has its counter incremented,
  and that at three failed attempts it is dropped and counted as failed once. The code
  evaluated where every send is rejected: \<open>sendSpamNotification\<close> catches the failure
  itself, puts the message back with \<open>retries = 0\<close> and returns, so the \<open>catch\<close> block of
  \<open>processQueue\<close> never runs. After four drains the entry is still queued with
  \<open>retries = 0\<close>, each drain has reported \<open>sent = 1\<close> and \<open>failed = 0\<close>, and four sends
  have been attempted.
\<close>

theorem processQueue_failed_send_requeued_forever:
  "drainCycles \<lparr>post = (\<lambda>n t. PostRejected), formatSpamMessage = body\<rparr> 4
       \<lparr>config = Some \<lparr>botToken = ''t'', chatId = ''c'', enabled = True\<rparr>, client = True,
       queue = [\<lparr>message = \<lparr>id_m = ''1'', sender = ''s'', body = ''win a prize'', timestamp = 0,
          isSpam_m = Some True, confidence_m = Some 1, reason_m = Some ''r'', classifiedAt_m = None\<rparr>, retries = 0\<rparr>],
       isProcessing = False, posted = []\<rparr>
   = ([\<lparr>sent = 1, failed = 0\<rparr>, \<lparr>sent = 1, failed = 0\<rparr>, \<lparr>sent = 1, failed = 0\<rparr>, \<lparr>sent = 1, failed = 0\<rparr>],
       \<lparr>config = Some \<lparr>botToken = ''t'', chatId = ''c'', enabled = True\<rparr>, client = True,
       queue = [\<lparr>message = \<lparr>id_m = ''1'', sender = ''s'', body = ''win a prize'', timestamp = 0,
          isSpam_m = Some True, confidence_m = Some 1, reason_m = Some ''r'', classifiedAt_m = None\<rparr>, retries = 0\<rparr>],
       isProcessing = False,
       posted = [''win a prize'', ''win a prize'', ''win a prize'', ''win a prize'']\<rparr>)"
  by (simp add: numeral_eq_Suc processQueue_def isInitialized_tg_def isEnabled_def
      sendSpamNotification_def sendMessage_def addToQueue_def)

section \<open>Properties of the ingestion coordinator\<close>

lemma getMessage_rows: "sms_messages (snd (getMessage env d k)) = sms_messages d"
  by (simp add: getMessage_def step_db_def)

lemma getMessage_present:
  "sms_messages d k = Some row \<Longrightarrow> fst (getMessage env d k) \<noteq> Inr None"
  by (simp add: getMessage_def)

text \<open>\<open>insertMessage\<close> writes the row of its message whether or not the id was there.\<close>

lemma insertMessage_replaces:
  "\<not> fails env (statements d) \<Longrightarrow>
   sms_messages (snd (insertMessage env d m)) (id_m m) =
     Some \<lparr>col_sender = sender m, col_body = body m, col_timestamp = timestamp m,
           is_spam = (case isSpam_m m of None \<Rightarrow> None | Some b \<Rightarrow> Some (if b then 1 else 0)),
           col_confidence = confidence_m m, col_reason = reason_m m,
           classified_at = classifiedAt_m m, created_at = timeAt env (statements d)\<rparr>"
  by (simp add: insertMessage_def step_db_def)

lemma insertMessage_other:
  "id_m m \<noteq> key \<Longrightarrow> sms_messages (snd (insertMessage env d m)) key = sms_messages d key"
  by (simp add: insertMessage_def step_db_def)

lemma updateClassification_other:
  "k \<noteq> key \<Longrightarrow>
   sms_messages (snd (updateClassification env d k spam conf why)) key = sms_messages d key"
  by (simp add: updateClassification_def step_db_def split: option.splits)

text \<open>What one round of the loop does to the table: nothing, or an insert and possibly an
  update under the id of the inbox message, and only when that id was absent.\<close>

lemma processNative_rows:
  "sms_messages (database (snd (processNative env w n))) key = sms_messages (database w) key
   \<or> (native_id n = key \<and> sms_messages (database w) key = None)"
proof -
  obtain g d1 where a: "getMessage (dbEnv env) (database w) (native_id n) = (g, d1)"
    by (cases "getMessage (dbEnv env) (database w) (native_id n)")
  have r1: "sms_messages d1 = sms_messages (database w)"
    using getMessage_rows [of "dbEnv env" "database w" "native_id n"] a by simp
  show ?thesis
  proof (cases "g = Inr None")
    case False
    then have "snd (processNative env w n) = w\<lparr>database := d1\<rparr>"
      using a by (cases g) (auto simp: processNative_def split: option.splits)
    then show ?thesis by (simp add: r1)
  next
    case True
    show ?thesis
    proof (cases "native_id n = key")
      case same: True
      have "sms_messages (database w) (native_id n) = None"
      proof (cases "sms_messages (database w) (native_id n)")
        case None
        then show ?thesis .
      next
        case (Some row)
        then have "fst (getMessage (dbEnv env) (database w) (native_id n)) \<noteq> Inr None"
          by (rule getMessage_present)
        then show ?thesis using a True by simp
      qed
      then show ?thesis using same by simp
    next
      case other: False
      let ?m = "\<lparr>id_m = native_id n, sender = native_sender n, body = native_body n,
                 timestamp = native_timestamp n, isSpam_m = None, confidence_m = None,
                 reason_m = None, classifiedAt_m = None\<rparr>"
      obtain i d2 where b: "insertMessage (dbEnv env) d1 ?m = (i, d2)"
        by (cases "insertMessage (dbEnv env) d1 ?m")
      have r2: "sms_messages d2 key = sms_messages (database w) key"
        using insertMessage_other [of ?m key "dbEnv env" d1] b other r1 by simp
      obtain c c1 where cc: "classifyMessage (aiEnv env) (classifier w) (native_body n) = (c, c1)"
        by (cases "classifyMessage (aiEnv env) (classifier w) (native_body n)")
      have "sms_messages (database (snd (processNative env w n))) key = sms_messages (database w) key"
      proof (cases c)
        case (Inl e)
        then show ?thesis
          using a True b cc r2 by (auto simp: processNative_def Let_def split: sum.splits)
      next
        case (Inr result)
        obtain u d3 where d: "updateClassification (dbEnv env) d2 (native_id n) (isSpam result)
            (confidence result) (reason result) = (u, d3)"
          by (cases "updateClassification (dbEnv env) d2 (native_id n) (isSpam result)
            (confidence result) (reason result)")
        have r3: "sms_messages d3 key = sms_messages (database w) key"
          using updateClassification_other [of "native_id n" key "dbEnv env" d2 "isSpam result"
              "confidence result" "reason result"] other r2 d
          by simp
        show ?thesis
          using a True b cc Inr d r2 r3
          by (auto simp: processNative_def Let_def split: sum.splits prod.splits)
      qed
      then show ?thesis by simp
    qed
  qed
qed

lemma processNative_keeps:
  "sms_messages (database w) key = Some row \<Longrightarrow>
   sms_messages (database (snd (processNative env w n))) key = Some row"
  using processNative_rows [of env w n key] by auto

lemma inboxLoop_keeps:
  "sms_messages (database w) key = Some row \<Longrightarrow>
   sms_messages (database (snd (inboxLoop env ns (cnt, w)))) key = Some row"
proof (induction ns arbitrary: cnt w)
  case Nil
  then show ?case by simp
next
  case (Cons n ns)
  obtain counted w' where p: "processNative env w n = (counted, w')"
    by (cases "processNative env w n")
  have "sms_messages (database w') key = Some row"
    using processNative_keeps [OF Cons.prems, of env n] p by simp
  then show ?case
    using Cons.IH [of w'] p by simp
qed

text \<open>
  Claim C6. Scanning the inbox again is a no-op for the rows already stored: a message
  whose id is in the store is skipped, and nothing the scan does for other messages
  touches its row, so after \<open>loadAndClassifyInbox\<close> the row (verdict, confidence and reason
  included) is the one that was there before. The skip is the \<open>getMessage\<close> test of the
  coordinator; \<open>insertMessage\<close> by itself would replace the row.
\<close>

theorem rescan_keeps_stored_rows:
  assumes "sms_messages (database w) key = Some row"
  shows "sms_messages (database (snd (loadAndClassifyInbox env w inbox))) key = Some row"
proof (cases inbox)
  case (Inl e)
  then show ?thesis using assms by (simp add: loadAndClassifyInbox_def)
next
  case (Inr ns)
  then show ?thesis
    using inboxLoop_keeps [OF assms, of env ns 0]
    by (cases "inboxLoop env ns (0, w)") (simp add: loadAndClassifyInbox_def)
qed

theorem rescan_keeps_stored_rows_witness:
  "sms_messages (database
      \<lparr>database = \<lparr>sms_messages = [''42'' \<mapsto> \<lparr>col_sender = ''AD-BANK'', col_body = ''win a prize'',
            col_timestamp = 1000, is_spam = Some 1, col_confidence = Some 0.9,
            col_reason = Some ''prize scam'', classified_at = Some 2000, created_at = 1500\<rparr>],
          statements = 3\<rparr>,
       classifier = new_ClassificationService,
       telegram = \<lparr>config = None, client = False, queue = [], isProcessing = False, posted = []\<rparr>\<rparr>)
     ''42''
   = Some \<lparr>col_sender = ''AD-BANK'', col_body = ''win a prize'',
            col_timestamp = 1000, is_spam = Some 1, col_confidence = Some 0.9,
            col_reason = Some ''prize scam'', classified_at = Some 2000, created_at = 1500\<rparr>
   \<and> sms_messages (database (snd (loadAndClassifyInbox
      \<lparr>dbEnv = \<lparr>fails = (\<lambda>n. False), timeAt = (\<lambda>n. 3000)\<rparr>,
       aiEnv = \<lparr>generateContent = (\<lambda>n p. Rejected), JSON_parse = (\<lambda>t. None)\<rparr>,
       telegramEnv = \<lparr>post = (\<lambda>n t. PostRejected), formatSpamMessage = body\<rparr>\<rparr>
      \<lparr>database = \<lparr>sms_messages = [''42'' \<mapsto> \<lparr>col_sender = ''AD-BANK'', col_body = ''win a prize'',
            col_timestamp = 1000, is_spam = Some 1, col_confidence = Some 0.9,
            col_reason = Some ''prize scam'', classified_at = Some 2000, created_at = 1500\<rparr>],
          statements = 3\<rparr>,
       classifier = new_ClassificationService,
       telegram = \<lparr>config = None, client = False, queue = [], isProcessing = False, posted = []\<rparr>\<rparr>
      (Inr [\<lparr>native_id = ''42'', native_sender = ''AD-BANK'', native_body = ''win a prize'',
             native_timestamp = 1000\<rparr>]))))
     ''42''
   = Some \<lparr>col_sender = ''AD-BANK'', col_body = ''win a prize'',
            col_timestamp = 1000, is_spam = Some 1, col_confidence = Some 0.9,
            col_reason = Some ''prize scam'', classified_at = Some 2000, created_at = 1500\<rparr>"
proof -
  let ?row = "\<lparr>col_sender = ''AD-BANK'', col_body = ''win a prize'',
            col_timestamp = 1000, is_spam = Some 1, col_confidence = Some (0.9::real),
            col_reason = Some ''prize scam'', classified_at = Some 2000, created_at = 1500\<rparr>"
  let ?w = "\<lparr>database = \<lparr>sms_messages = [''42'' \<mapsto> ?row], statements = 3\<rparr>,
       classifier = new_ClassificationService,
       telegram = \<lparr>config = None, client = False, queue = [], isProcessing = False, posted = []\<rparr>\<rparr>"
  have h: "sms_messages (database ?w) ''42'' = Some ?row"
    by simp
  show ?thesis
    using h rescan_keeps_stored_rows [OF h] by blast
qed

end
